theory Spec2Isabelle
  imports Main "HOL-Library.Word"
begin

unbundle bit_operations_syntax

section \<open>The image labelling Lambda: a shallow embedding of main.go\<close>

text \<open>
  The program reacts to S3 notifications. For each record \<open>handleImage\<close> classifies the
  object key (\<open>isImageFile\<close>), downloads the object, decodes it, stamps the text
  "This is watermark" on a copy (\<open>addLabel\<close>), encodes the copy with the codec named by
  the key's extension and stores it under \<open>labeled-images/\<close>.

  The functions of main.go are translated below, under their own names. What they call
  in the Go standard library, in golang.org/x/image and in the AWS SDK is not part of the
  repository: small pure routines (\<open>strings.ToLower\<close>, \<open>strings.HasSuffix\<close>,
  \<open>path.Base\<close>, the rectangle operations of package \<open>image\<close>, \<open>draw.Draw\<close>,
  \<open>font.Drawer.DrawString\<close>) are written out after their library source; the S3 client,
  the image codecs, the glyph table and bitmap of the font and the UTF-8 decoding of a
  string into runes are parameters.
\<close>

subsection \<open>Strings: the routines of packages strings, path and fmt that main.go calls\<close>

type_synonym bytes = "8 word list"

text \<open>
  A Go string is a sequence of bytes, here a \<open>char list\<close>. \<open>strings.ToLower\<close> maps the
  bytes \<open>A\<close> .. \<open>Z\<close> to \<open>a\<close> .. \<open>z\<close> (the library adds \<open>'a' - 'A'\<close>). On a string with
  bytes beyond ASCII the library lower-cases rune by rune; no rune beyond ASCII
  lower-cases to a character of \<open>.jpg\<close>, \<open>.jpeg\<close> or \<open>.png\<close>, so the suffix tests of
  \<open>isImageFile\<close> see the same answer from the byte-wise function.
\<close>

definition lowerByte :: "char \<Rightarrow> char" where
  "lowerByte c =
     (if 65 \<le> (of_char c :: nat) \<and> (of_char c :: nat) \<le> 90
      then char_of ((of_char c :: nat) + 32) else c)"

definition ToLower :: "string \<Rightarrow> string" where
  "ToLower s = map lowerByte s"

text \<open>\<open>strings.HasSuffix\<close>: \<open>len(s) >= len(suffix) && s[len(s)-len(suffix):] == suffix\<close>.\<close>

definition HasSuffix :: "string \<Rightarrow> string \<Rightarrow> bool" where
  "HasSuffix s sfx \<longleftrightarrow>
     length sfx \<le> length s \<and> drop (length s - length sfx) s = sfx"

text \<open>
  \<open>path.Base\<close>: the empty path gives \<open>.\<close>; trailing slashes are stripped; what follows
  the last slash is kept; a path of slashes only gives \<open>/\<close>.
\<close>

definition stripTrailingSlashes :: "string \<Rightarrow> string" where
  "stripTrailingSlashes p = rev (dropWhile (\<lambda>c. c = CHR ''/'') (rev p))"

definition afterLastSlash :: "string \<Rightarrow> string" where
  "afterLastSlash p = rev (takeWhile (\<lambda>c. c \<noteq> CHR ''/'') (rev p))"

definition Base :: "string \<Rightarrow> string" where
  "Base p =
     (if p = [] then ''.''
      else let q = afterLastSlash (stripTrailingSlashes p)
           in if q = [] then ''/'' else q)"

subsection \<open>isImageFile (main.go, lines 54-63)\<close>

definition supportedExtensions :: "string list" where
  "supportedExtensions = [''.jpg'', ''.jpeg'', ''.png'']"

text \<open>The \<open>for ... range supportedExtensions\<close> loop; \<open>ext[1:]\<close> drops the dot.\<close>

fun isImageFile_loop :: "string list \<Rightarrow> string \<Rightarrow> bool \<times> string" where
  "isImageFile_loop [] key = (False, [])"
| "isImageFile_loop (ext # exts) key =
     (if HasSuffix (ToLower key) ext then (True, drop 1 ext)
      else isImageFile_loop exts key)"

definition isImageFile :: "string \<Rightarrow> bool \<times> string" where
  "isImageFile key = isImageFile_loop supportedExtensions key"

text \<open>
  The specification's reading of "ends case-insensitively in \<open>ext\<close>", on the key itself:
  the last \<open>length ext\<close> bytes of the key, lower-cased, are \<open>ext\<close>.
\<close>

definition ends_case_insensitively :: "string \<Rightarrow> string \<Rightarrow> bool" where
  "ends_case_insensitively key ext \<longleftrightarrow>
     length ext \<le> length key \<and>
     map lowerByte (drop (length key - length ext) key) = ext"

subsection \<open>Package image: points, rectangles, colours\<close>

type_synonym Point = "int \<times> int"

record Rectangle =
  rMin :: Point
  rMax :: Point

definition Rect :: "int \<Rightarrow> int \<Rightarrow> int \<Rightarrow> int \<Rightarrow> Rectangle" where
  "Rect x0 y0 x1 y1 = \<lparr>rMin = (x0, y0), rMax = (x1, y1)\<rparr>"

text \<open>
  Coordinates are Go \<open>int\<close>s, of 64 bits on the platforms of AWS Lambda. \<open>Dx\<close> and \<open>Dy\<close>
  are differences of coordinates and wrap around as the machine subtraction does.
\<close>

definition wrap64 :: "int \<Rightarrow> int" where
  "wrap64 v = sint (word_of_int v :: 64 word)"

definition Dx :: "Rectangle \<Rightarrow> int" where
  "Dx r = wrap64 (fst (rMax r) - fst (rMin r))"

definition Dy :: "Rectangle \<Rightarrow> int" where
  "Dy r = wrap64 (snd (rMax r) - snd (rMin r))"

definition Empty :: "Rectangle \<Rightarrow> bool" where
  "Empty r \<longleftrightarrow> fst (rMin r) \<ge> fst (rMax r) \<or> snd (rMin r) \<ge> snd (rMax r)"

definition In :: "Point \<Rightarrow> Rectangle \<Rightarrow> bool" where
  "In p r \<longleftrightarrow>
     fst (rMin r) \<le> fst p \<and> fst p < fst (rMax r) \<and>
     snd (rMin r) \<le> snd p \<and> snd p < snd (rMax r)"

definition addP :: "Point \<Rightarrow> Point \<Rightarrow> Point" where
  "addP p q = (fst p + fst q, snd p + snd q)"

definition subP :: "Point \<Rightarrow> Point \<Rightarrow> Point" where
  "subP p q = (fst p - fst q, snd p - snd q)"

definition Add :: "Rectangle \<Rightarrow> Point \<Rightarrow> Rectangle" where
  "Add r p = \<lparr>rMin = addP (rMin r) p, rMax = addP (rMax r) p\<rparr>"

text \<open>\<open>Rectangle.Intersect\<close>: the larger minimum, the smaller maximum, and the zero
  rectangle when that is empty.\<close>

definition Intersect :: "Rectangle \<Rightarrow> Rectangle \<Rightarrow> Rectangle" where
  "Intersect r s =
     (let t = \<lparr>rMin = (max (fst (rMin r)) (fst (rMin s)), max (snd (rMin r)) (snd (rMin s))),
                rMax = (min (fst (rMax r)) (fst (rMax s)), min (snd (rMax r)) (snd (rMax s)))\<rparr>
      in if Empty t then Rect 0 0 0 0 else t)"

text \<open>
  A \<open>color.Color\<close> is known through its method \<open>RGBA()\<close>, which returns four
  alpha-premultiplied channels as \<open>uint32\<close> values in \<open>[0, 0xffff]\<close>. The model of a colour
  is that quadruple. \<open>color.RGBA\<close> is the 8-bit colour that \<open>*image.RGBA\<close> stores.
\<close>

datatype Color = Color (chR: "32 word") (chG: "32 word") (chB: "32 word") (chA: "32 word")

datatype RGBA = RGBA (rgbaR: "8 word") (rgbaG: "8 word") (rgbaB: "8 word") (rgbaA: "8 word")

text \<open>\<open>func (c RGBA) RGBA()\<close>: \<open>r = uint32(c.R); r |= r << 8\<close>, and so on.\<close>

definition widen :: "8 word \<Rightarrow> 32 word" where
  "widen v = (ucast v) OR push_bit 8 (ucast v)"

definition RGBA_RGBA :: "RGBA \<Rightarrow> Color" where
  "RGBA_RGBA c = Color (widen (rgbaR c)) (widen (rgbaG c)) (widen (rgbaB c)) (widen (rgbaA c))"

text \<open>\<open>color.RGBAModel.Convert\<close>: \<open>uint8(r >> 8)\<close> of each channel of \<open>RGBA()\<close>. This is
  what \<open>draw.Draw\<close> with \<open>draw.Src\<close> writes into an \<open>*image.RGBA\<close>.\<close>

definition rgbaModel :: "Color \<Rightarrow> RGBA" where
  "rgbaModel c =
     RGBA (ucast (drop_bit 8 (chR c))) (ucast (drop_bit 8 (chG c)))
          (ucast (drop_bit 8 (chB c))) (ucast (drop_bit 8 (chA c)))"

subsection \<open>Images and the worker's store\<close>

text \<open>
  An \<open>image.Image\<close> value is a pointer to an image object. \<open>GenericImage\<close> is any image
  behind the interface (what a decoder returns: YCbCr, NRGBA, Gray16, ...), seen through
  \<open>Bounds()\<close> and \<open>At(x, y).RGBA()\<close>. \<open>RGBAImage\<close> is an \<open>*image.RGBA\<close>: its rectangle
  and, for each point, the four bytes that \<open>Pix\<close> holds for it.
  The store is the list of objects allocated so far; a reference is an index, and the
  next allocation takes the index \<open>length h\<close>. A reference beyond the store plays the
  nil pointer.
\<close>

record Image =
  imgBounds :: Rectangle
  imgAt :: "Point \<Rightarrow> Color"

record RGBAImage =
  rgbaRect :: Rectangle
  Pix :: "Point \<Rightarrow> RGBA"

datatype Object = GenericImage Image | RGBAObject RGBAImage

type_synonym Ref = nat
type_synonym Heap = "Object list"

definition lookup :: "Heap \<Rightarrow> Ref \<Rightarrow> Object option" where
  "lookup h r = (if r < length h then Some (h ! r) else None)"

fun Bounds :: "Object \<Rightarrow> Rectangle" where
  "Bounds (GenericImage i) = imgBounds i"
| "Bounds (RGBAObject b) = rgbaRect b"

text \<open>\<open>At(x, y).RGBA()\<close>. \<open>(*image.RGBA).At\<close> answers the zero colour outside its
  rectangle.\<close>

fun At :: "Object \<Rightarrow> Point \<Rightarrow> Color" where
  "At (GenericImage i) p = imgAt i p"
| "At (RGBAObject b) p =
     (if In p (rgbaRect b) then RGBA_RGBA (Pix b p) else Color 0 0 0 0)"

text \<open>
  \<open>mul3NonNeg\<close> of package image: the product of three \<open>int\<close>s, or \<open>-1\<close> when one of
  them is negative or the product does not fit in a non-negative \<open>int\<close>. The library
  multiplies with \<open>bits.Mul64\<close> and tests the high word after each product and the sign
  at the end.
\<close>

definition mul3NonNeg :: "int \<Rightarrow> int \<Rightarrow> int \<Rightarrow> int" where
  "mul3NonNeg x y z =
     (if x < 0 \<or> y < 0 \<or> z < 0 then - 1
      else if 2 ^ 64 \<le> x * y then - 1
      else if 2 ^ 64 \<le> x * y * z then - 1
      else if 2 ^ 63 \<le> x * y * z then - 1
      else x * y * z)"

text \<open>A zeroed buffer with rectangle \<open>r\<close>.\<close>

definition blankRGBA :: "Rectangle \<Rightarrow> RGBAImage" where
  "blankRGBA r = \<lparr>rgbaRect = r, Pix = (\<lambda>p. RGBA 0 0 0 0)\<rparr>"

text \<open>
  \<open>image.NewRGBA(r)\<close>. \<open>pixelBufferLength(4, r, "RGBA")\<close> panics with "Rectangle has huge
  or negative dimensions" when \<open>mul3NonNeg(4, r.Dx(), r.Dy())\<close> is negative. Then
  \<open>make([]uint8, totalLength)\<close> asks the run time for the bytes; whether a length is
  granted depends on the memory of the process and is the parameter \<open>granted\<close>. The
  result \<open>None\<close> is a call that does not return.
\<close>

definition NewRGBA :: "(int \<Rightarrow> bool) \<Rightarrow> Rectangle \<Rightarrow> RGBAImage option" where
  "NewRGBA granted r =
     (let totalLength = mul3NonNeg 4 (Dx r) (Dy r)
      in if totalLength < 0 then None
         else if \<not> granted totalLength then None
         else Some (blankRGBA r))"

subsection \<open>Package draw\<close>

text \<open>
  \<open>draw.Draw(dst, r, src, sp, draw.Src)\<close>. The library clips \<open>r\<close> to the destination and
  to the source rectangle moved by \<open>r.Min - sp\<close>, then writes, at each point \<open>p\<close> of
  what is left, the colour of the source at \<open>sp + (p - r.Min)\<close> converted by the
  destination's colour model.
\<close>

definition clipSrc :: "Rectangle \<Rightarrow> Rectangle \<Rightarrow> Rectangle \<Rightarrow> Point \<Rightarrow> Rectangle" where
  "clipSrc dstBounds r srcBounds sp =
     Intersect (Intersect r dstBounds) (Add srcBounds (subP (rMin r) sp))"

definition Draw :: "RGBAImage \<Rightarrow> Rectangle \<Rightarrow> Object \<Rightarrow> Point \<Rightarrow> RGBAImage" where
  "Draw dst r src sp =
     dst\<lparr>Pix := (\<lambda>p. if In p (clipSrc (rgbaRect dst) r (Bounds src) sp)
                      then rgbaModel (At src (addP sp (subP p (rMin r))))
                      else Pix dst p)\<rparr>"

text \<open>
  \<open>draw.DrawMask(dst, dr, src, image.Point{}, mask, maskp, draw.Over)\<close> for a uniform
  source and an alpha mask, the case \<open>drawGlyphOver\<close> of the library. With \<open>m = 0xffff\<close>,
  a destination byte \<open>d\<close>, a source channel \<open>s\<close>, the source alpha \<open>sa\<close> and the mask alpha
  \<open>ma\<close> widened to 16 bits, the byte becomes
  \<open>uint8((uint32(d) * a + s * ma) / m >> 8)\<close> where \<open>a = (m - sa * ma / m) * 0x101\<close>;
  a point whose mask alpha is zero is skipped.
\<close>

definition m16 :: "32 word" where
  "m16 = 0xffff"

definition blendByte :: "8 word \<Rightarrow> 32 word \<Rightarrow> 32 word \<Rightarrow> 32 word \<Rightarrow> 8 word" where
  "blendByte d s sa ma =
     (let a = (m16 - (sa * ma div m16)) * 0x101
      in ucast (drop_bit 8 ((ucast d * a + s * ma) div m16)))"

definition blendOver :: "RGBA \<Rightarrow> Color \<Rightarrow> 8 word \<Rightarrow> RGBA" where
  "blendOver d src mask8 =
     (if mask8 = 0 then d
      else let ma = widen mask8
           in RGBA (blendByte (rgbaR d) (chR src) (chA src) ma)
                   (blendByte (rgbaG d) (chG src) (chA src) ma)
                   (blendByte (rgbaB d) (chB src) (chA src) ma)
                   (blendByte (rgbaA d) (chA src) (chA src) ma))"

text \<open>
  The mask of a basicfont face is an \<open>*image.Alpha\<close> whose bytes are \<open>0x00\<close> or \<open>0xff\<close>.
  The model of the mask is the set of its points that hold \<open>0xff\<close>; a point outside the
  mask's rectangle is not in the set (the library clips the drawing there). The uniform
  source is unbounded for the purposes of clipping: its rectangle reaches 10^9 in each
  direction from the glyph's corner.
\<close>

definition maskAlpha :: "(Point \<Rightarrow> bool) \<Rightarrow> Point \<Rightarrow> 8 word" where
  "maskAlpha msk p = (if msk p then 0xff else 0)"

definition DrawMask :: "RGBAImage \<Rightarrow> Rectangle \<Rightarrow> Color \<Rightarrow> (Point \<Rightarrow> bool) \<Rightarrow> Point \<Rightarrow> RGBAImage" where
  "DrawMask dst dr src msk maskp =
     dst\<lparr>Pix := (\<lambda>p. if In p (Intersect dr (rgbaRect dst))
                      then blendOver (Pix dst p) src (maskAlpha msk (addP maskp (subP p (rMin dr))))
                      else Pix dst p)\<rparr>"

subsection \<open>Packages fixed, basicfont and font\<close>

text \<open>
  \<open>fixed.Int26_6\<close> is an \<open>int32\<close> counting 64ths of a pixel. A point of the drawer is a
  pair of them. \<open>fixed.Int26_6(x * 64)\<close> keeps the low 32 bits of the product.
\<close>

type_synonym Int26_6 = "32 word"
type_synonym rune = nat

definition toInt26_6 :: "int \<Rightarrow> Int26_6" where
  "toInt26_6 v = word_of_int v"

text \<open>\<open>int(v + 32) >> 6\<close>: the addition wraps in 32 bits, the shift is arithmetic.\<close>

definition roundPixel :: "Int26_6 \<Rightarrow> int" where
  "roundPixel v = sint (v + 32) div 64"

record Range =
  Low :: rune
  High :: rune
  Offset :: int

record Face =
  Advance :: int
  Width :: int
  Height :: int
  Ascent :: int
  Descent :: int
  Left :: int
  Mask :: "Point \<Rightarrow> bool"
  Ranges :: "Range list"

text \<open>
  \<open>basicfont.Face7x13\<close>. The numbers are those of the library; the glyph table and the
  bitmap are data of golang.org/x/image and are parameters.
\<close>

definition Face7x13 :: "(Point \<Rightarrow> bool) \<Rightarrow> Range list \<Rightarrow> Face" where
  "Face7x13 bitmap table =
     \<lparr>Advance = 7, Width = 6, Height = 13, Ascent = 11, Descent = 2, Left = 0,
      Mask = bitmap, Ranges = table\<rparr>"

text \<open>The inner loop of \<open>(*Face).Glyph\<close>: the first range that holds the rune gives the
  row of the glyph in the mask.\<close>

fun findRange :: "Range list \<Rightarrow> rune \<Rightarrow> int option" where
  "findRange [] rr = None"
| "findRange (rng # rngs) rr =
     (if rr < Low rng \<or> High rng \<le> rr then findRange rngs rr
      else Some (int (rr - Low rng) + Offset rng))"

text \<open>
  \<open>(*Face).Glyph(dot, r)\<close>: the rune is looked up, then U+FFFD; when neither is in the
  table there is no glyph. Otherwise the result is the destination rectangle, the mask
  point and the advance \<open>fixed.I(f.Advance)\<close>.
\<close>

definition Glyph :: "Face \<Rightarrow> Int26_6 \<times> Int26_6 \<Rightarrow> rune \<Rightarrow> (Rectangle \<times> Point \<times> Int26_6) option" where
  "Glyph f dot r =
     (case (case findRange (Ranges f) r of Some i \<Rightarrow> Some i
            | None \<Rightarrow> findRange (Ranges f) 0xFFFD) of
        None \<Rightarrow> None
      | Some i \<Rightarrow>
          (let x = roundPixel (fst dot) + Left f;
               y = roundPixel (snd dot)
           in Some (\<lparr>rMin = (x, y - Ascent f), rMax = (x + Width f, y + Descent f)\<rparr>,
                    (0, i * (Ascent f + Descent f)),
                    toInt26_6 (Advance f * 64))))"

text \<open>
  \<open>(*Drawer).DrawString\<close>: for each rune of the string, draw its glyph at the dot through
  the mask and move the dot by the advance; a rune without glyph draws nothing and does
  not move the dot. The kerning of a basicfont face is zero. The function takes the
  runes of the string, the face, the source colour, the dot and the destination buffer.
\<close>

fun DrawString :: "Face \<Rightarrow> Color \<Rightarrow> Int26_6 \<times> Int26_6 \<Rightarrow> rune list \<Rightarrow> RGBAImage \<Rightarrow> RGBAImage" where
  "DrawString f src dot [] dst = dst"
| "DrawString f src dot (c # cs) dst =
     (case Glyph f dot c of
        None \<Rightarrow> DrawString f src dot cs dst
      | Some (dr, maskp, advance) \<Rightarrow>
          DrawString f src (fst dot + advance, snd dot) cs
            (DrawMask dst dr src (Mask f) maskp))"

text \<open>
  The points that a glyph of the string covers: the points of a glyph's rectangle whose
  mask point is set. It follows the dot along the string as the drawer does, and does
  not look at any image.
\<close>

fun glyphCovers :: "Face \<Rightarrow> Int26_6 \<times> Int26_6 \<Rightarrow> rune list \<Rightarrow> Point \<Rightarrow> bool" where
  "glyphCovers f dot [] p = False"
| "glyphCovers f dot (c # cs) p =
     (case Glyph f dot c of
        None \<Rightarrow> glyphCovers f dot cs p
      | Some (dr, maskp, advance) \<Rightarrow>
          (In p dr \<and> Mask f (addP maskp (subP p (rMin dr)))) \<or>
          glyphCovers f (fst dot + advance, snd dot) cs p)"

subsection \<open>addLabel (main.go, lines 31-52)\<close>

text \<open>
  What addLabel uses beyond its arguments: the font data, the decoding of a string into
  runes done by Go's \<open>range\<close> clause (on an ASCII string, its bytes), and the lengths of
  byte slices that the run time grants.
\<close>

record Lib =
  mask7x13 :: "Point \<Rightarrow> bool"
  ranges7x13 :: "Range list"
  runes :: "string \<Rightarrow> rune list"
  makeBytes :: "int \<Rightarrow> bool"

definition red :: RGBA where
  "red = RGBA 255 0 0 255"

text \<open>
  The image argument is a reference into the store. \<open>image.NewRGBA\<close> allocates the new
  buffer at the next free index; \<open>draw.Draw\<close> and \<open>DrawString\<close> write to that buffer
  only. The result is \<open>None\<close> when addLabel does not return: a nil image makes
  \<open>img.Bounds()\<close> panic, and \<open>image.NewRGBA\<close> panics or is refused the memory on bounds
  of negative or huge size.
\<close>

definition addLabel :: "Lib \<Rightarrow> Heap \<Rightarrow> Ref \<Rightarrow> int \<Rightarrow> int \<Rightarrow> string \<Rightarrow> (Heap \<times> Ref) option" where
  "addLabel lib h img x y label =
     (case lookup h img of
        None \<Rightarrow> None
      | Some src \<Rightarrow>
          (case NewRGBA (makeBytes lib) (Bounds src) of
             None \<Rightarrow> None
           | Some blank \<Rightarrow>
               (let rgba = length h;
                    h1 = h @ [RGBAObject blank];
                    buf1 = Draw blank (rgbaRect blank) src (0, 0);
                    h2 = h1[rgba := RGBAObject buf1];
                    col = red;
                    point = (toInt26_6 (x * 64), toInt26_6 (y * 64));
                    buf2 = DrawString (Face7x13 (mask7x13 lib) (ranges7x13 lib)) (RGBA_RGBA col)
                             point (runes lib label) buf1;
                    h3 = h2[rgba := RGBAObject buf2]
                in Some (h3, rgba))))"

subsection \<open>The collaborators of handleImage\<close>

text \<open>
  Of an \<open>events.S3EventRecord\<close> the worker reads \<open>record.S3.Bucket.Name\<close> and
  \<open>record.S3.Object.Key\<close>.
\<close>

record S3EventRecord =
  BucketName :: string
  ObjectKey :: string

record PutObjectInput =
  Bucket :: string
  Key :: string
  Body :: bytes
  ContentType :: string

text \<open>The calls made on the S3 client, in the order they are made.\<close>

datatype S3Call = GetObjectCall string string | PutObjectCall PutObjectInput

text \<open>
  How a run of the worker ends: it returns; \<open>log.Fatal\<close> or \<open>log.Fatalf\<close> ends the
  process with \<open>os.Exit(1)\<close>; or a panic or a fatal error of the run time ends it.
\<close>

datatype Outcome = Returned | Exit1 | Panicked

text \<open>
  The environment of a run. \<open>GetObject\<close> answers an error or the bytes that the response
  body delivers; \<open>Decode\<close> is \<open>image.Decode\<close> with the jpeg and png decoders registered,
  answering an error or the decoded image and the name of the format it recognised from
  the bytes; \<open>png_Encode\<close> and \<open>jpeg_Encode\<close> answer an error or the bytes written to the
  buffer; \<open>PutObject\<close> answers an error or nothing.
\<close>

record Env =
  GetObject :: "string \<Rightarrow> string \<Rightarrow> string + bytes"
  Decode :: "bytes \<Rightarrow> string + (Object \<times> string)"
  png_Encode :: "Object \<Rightarrow> string + bytes"
  jpeg_Encode :: "Object \<Rightarrow> string + bytes"
  PutObject :: "PutObjectInput \<Rightarrow> string option"
  lib :: Lib

subsection \<open>handleImage (main.go, lines 65-128)\<close>

definition watermark :: string where
  "watermark = ''This is watermark''"

text \<open>Lines 93-101: the anchor is chosen from \<open>bounds.Max.X\<close> and \<open>bounds.Max.Y\<close>.\<close>

definition labelImage :: "Lib \<Rightarrow> Heap \<Rightarrow> Ref \<Rightarrow> (Heap \<times> Ref) option" where
  "labelImage lb h img =
     (case lookup h img of
        None \<Rightarrow> None
      | Some obj \<Rightarrow>
          (let bounds = Bounds obj
           in if fst (rMax bounds) < 20 \<and> snd (rMax bounds) < 20
              then addLabel lb h img 0 0 watermark
              else addLabel lb h img 20 20 watermark))"

text \<open>Lines 103-116: the \<open>switch ext\<close> has the cases \<open>"png"\<close> and \<open>"jpeg", "jpg"\<close> and no
  default; the buffer starts empty.\<close>

definition encodeImage :: "Env \<Rightarrow> string \<Rightarrow> Object \<Rightarrow> string + bytes" where
  "encodeImage env ext labeledImage =
     (if ext = ''png'' then png_Encode env labeledImage
      else if ext = ''jpeg'' \<or> ext = ''jpg'' then jpeg_Encode env labeledImage
      else Inr [])"

text \<open>Lines 118-123: the request that stores the result.\<close>

definition putInput :: "S3EventRecord \<Rightarrow> string \<Rightarrow> bytes \<Rightarrow> PutObjectInput" where
  "putInput rec ext buf =
     \<lparr>Bucket = BucketName rec,
      Key = ''labeled-images/'' @ Base (ObjectKey rec),
      Body = buf,
      ContentType = ''image/'' @ ext\<rparr>"

text \<open>
  The worker. The result is how the run ends and the calls it made on the S3 client.
  The decoded image is the first object of the worker's store. Log lines, the deferred
  \<open>wg.Done()\<close> and the closing of the response body are left out.
\<close>

definition handleImage :: "Env \<Rightarrow> S3EventRecord \<Rightarrow> Outcome \<times> S3Call list" where
  "handleImage env rec =
     (let bucket = BucketName rec;
          key = ObjectKey rec;
          (isImage, ext) = isImageFile key
      in if \<not> isImage then (Returned, [])
         else
           case GetObject env bucket key of
             Inl err \<Rightarrow> (Exit1, [GetObjectCall bucket key])
           | Inr body \<Rightarrow>
               (case Decode env body of
                  Inl err \<Rightarrow> (Exit1, [GetObjectCall bucket key])
                | Inr (img, format) \<Rightarrow>
                    (case labelImage (lib env) [img] 0 of
                       None \<Rightarrow> (Panicked, [GetObjectCall bucket key])
                     | Some (h, labeledImage) \<Rightarrow>
                         (case lookup h labeledImage of
                            None \<Rightarrow> (Panicked, [GetObjectCall bucket key])
                          | Some labeled \<Rightarrow>
                              (case encodeImage env ext labeled of
                                 Inl err \<Rightarrow> (Exit1, [GetObjectCall bucket key])
                               | Inr buf \<Rightarrow>
                                   (case PutObject env (putInput rec ext buf) of
                                      Some err \<Rightarrow>
                                        (Exit1, [GetObjectCall bucket key,
                                                 PutObjectCall (putInput rec ext buf)])
                                    | None \<Rightarrow>
                                        (Returned, [GetObjectCall bucket key,
                                                    PutObjectCall (putInput rec ext buf)])))))))"

text \<open>
  \<open>HandleRequest\<close> starts one goroutine running \<open>handleImage\<close> for each record and waits
  on a \<open>sync.WaitGroup\<close>. Goroutines and their scheduling are outside this embedding.
\<close>

subsection \<open>The placement policy and the store calls, in the specification's words\<close>

definition placementPoint :: "int \<Rightarrow> int \<Rightarrow> Point" where
  "placementPoint width height = (if width < 20 \<and> height < 20 then (0, 0) else (20, 20))"

definition isPut :: "S3Call \<Rightarrow> bool" where
  "isPut c = (case c of PutObjectCall inp \<Rightarrow> True | GetObjectCall b k \<Rightarrow> False)"

text \<open>
  The colour, as \<open>At(x, y).RGBA()\<close>, at a point of the image that a result of addLabel
  refers to.
\<close>

definition pixelOf :: "(Heap \<times> Ref) option \<Rightarrow> Point \<Rightarrow> Color option" where
  "pixelOf res p =
     (case res of
        None \<Rightarrow> None
      | Some (h, r) \<Rightarrow> (case lookup h r of None \<Rightarrow> None | Some obj \<Rightarrow> Some (At obj p)))"

subsection \<open>Example inputs\<close>

text \<open>
  A font library whose bitmap has every point set and whose table holds the printable
  ASCII range and U+FFFD, with a run time that grants up to 2 GiB; images of one
  colour; an environment where every step succeeds, and variants where one step fails;
  some notification records.
\<close>

definition demoLib :: Lib where
  "demoLib = \<lparr>mask7x13 = (\<lambda>p. True),
              ranges7x13 = [\<lparr>Low = 32, High = 127, Offset = 0\<rparr>,
                            \<lparr>Low = 0xFFFD, High = 0xFFFE, Offset = 95\<rparr>],
              runes = map of_char,
              makeBytes = (\<lambda>n. n \<le> 2 ^ 31)\<rparr>"

definition white :: Color where
  "white = Color 0xffff 0xffff 0xffff 0xffff"

definition smallImage :: Object where
  "smallImage = GenericImage \<lparr>imgBounds = Rect 0 0 10 10, imgAt = (\<lambda>p. white)\<rparr>"

definition demoEnv :: Env where
  "demoEnv = \<lparr>GetObject = (\<lambda>bucket key. Inr [1, 2, 3]),
              Decode = (\<lambda>body. Inr (smallImage, ''png'')),
              png_Encode = (\<lambda>img. Inr [137, 80]),
              jpeg_Encode = (\<lambda>img. Inr [255, 216]),
              PutObject = (\<lambda>input. None),
              lib = demoLib\<rparr>"

definition catRecord :: S3EventRecord where
  "catRecord = \<lparr>BucketName = ''uploads'', ObjectKey = ''photos/cat.PNG''\<rparr>"

definition largeImage :: Object where
  "largeImage = GenericImage \<lparr>imgBounds = Rect 0 0 800 600, imgAt = (\<lambda>p. white)\<rparr>"

definition readmeRecord :: S3EventRecord where
  "readmeRecord = \<lparr>BucketName = ''uploads'', ObjectKey = ''docs/readme.txt''\<rparr>"

definition dogRecord :: S3EventRecord where
  "dogRecord = \<lparr>BucketName = ''uploads'', ObjectKey = ''photos/dog.jpg''\<rparr>"

definition labeledRecord :: S3EventRecord where
  "labeledRecord = \<lparr>BucketName = ''uploads'', ObjectKey = ''labeled-images/cat.png''\<rparr>"

definition dogOutput :: PutObjectInput where
  "dogOutput = \<lparr>Bucket = ''uploads'', Key = ''labeled-images/dog.jpg'',
                 Body = [255, 216], ContentType = ''image/jpg''\<rparr>"

definition failingGet :: Env where
  "failingGet = demoEnv\<lparr>GetObject := (\<lambda>bucket key. Inl ''NoSuchKey'')\<rparr>"

definition failingDecode :: Env where
  "failingDecode = demoEnv\<lparr>Decode := (\<lambda>body. Inl ''image: unknown format'')\<rparr>"

definition failingPut :: Env where
  "failingPut = demoEnv\<lparr>PutObject := (\<lambda>input. Some ''AccessDenied'')\<rparr>"

definition catOutput :: PutObjectInput where
  "catOutput = \<lparr>Bucket = ''uploads'', Key = ''labeled-images/cat.PNG'',
                 Body = [137, 80], ContentType = ''image/png''\<rparr>"

definition grey16 :: Color where
  "grey16 = Color 0x1234 0x1234 0x1234 0xffff"

definition deepImage :: Object where
  "deepImage = GenericImage \<lparr>imgBounds = Rect 0 0 1 1, imgAt = (\<lambda>p. grey16)\<rparr>"

definition uniformImage :: Object where
  "uniformImage =
     GenericImage \<lparr>imgBounds = Rect (- 1000000000) (- 1000000000) 1000000000 1000000000,
                   imgAt = (\<lambda>p. white)\<rparr>"

definition reversedImage :: Object where
  "reversedImage = GenericImage \<lparr>imgBounds = Rect 5 5 0 0, imgAt = (\<lambda>p. white)\<rparr>"

definition offsetImage :: Object where
  "offsetImage = GenericImage \<lparr>imgBounds = Rect 1 1 2 2, imgAt = (\<lambda>p. white)\<rparr>"

section \<open>Properties\<close>

subsection \<open>Suffixes and base names\<close>

lemma HasSuffix_iff: "HasSuffix s sfx \<longleftrightarrow> (\<exists>p. s = p @ sfx)"
proof
  assume "HasSuffix s sfx"
  then have "s = take (length s - length sfx) s @ sfx"
    by (metis HasSuffix_def append_take_drop_id)
  then show "\<exists>p. s = p @ sfx" ..
next
  assume "\<exists>p. s = p @ sfx"
  then show "HasSuffix s sfx" by (auto simp: HasSuffix_def)
qed

lemma HasSuffix_ToLower:
  "HasSuffix (ToLower key) ext \<longleftrightarrow> ends_case_insensitively key ext"
  by (simp add: HasSuffix_def ToLower_def ends_case_insensitively_def drop_map)

lemma jpg_not_jpeg: "HasSuffix s ''.jpg'' \<Longrightarrow> \<not> HasSuffix s ''.jpeg''"
proof
  assume "HasSuffix s ''.jpg''" and "HasSuffix s ''.jpeg''"
  then obtain p q where "s = p @ ''.jpg''" and "s = q @ ''.jpeg''"
    by (auto simp: HasSuffix_iff)
  then have "rev (p @ ''.jpg'') = rev (q @ ''.jpeg'')" by simp
  then show False by simp
qed

lemma jpg_not_png: "HasSuffix s ''.jpg'' \<Longrightarrow> \<not> HasSuffix s ''.png''"
proof
  assume "HasSuffix s ''.jpg''" and "HasSuffix s ''.png''"
  then obtain p q where "s = p @ ''.jpg''" and "s = q @ ''.png''"
    by (auto simp: HasSuffix_iff)
  then have "rev (p @ ''.jpg'') = rev (q @ ''.png'')" by simp
  then show False by simp
qed

lemma jpeg_not_png: "HasSuffix s ''.jpeg'' \<Longrightarrow> \<not> HasSuffix s ''.png''"
proof
  assume "HasSuffix s ''.jpeg''" and "HasSuffix s ''.png''"
  then obtain p q where "s = p @ ''.jpeg''" and "s = q @ ''.png''"
    by (auto simp: HasSuffix_iff)
  then have "rev (p @ ''.jpeg'') = rev (q @ ''.png'')" by simp
  then show False by simp
qed

lemma isImageFile_unfold:
  "isImageFile key =
     (if HasSuffix (ToLower key) ''.jpg'' then (True, ''jpg'')
      else if HasSuffix (ToLower key) ''.jpeg'' then (True, ''jpeg'')
      else if HasSuffix (ToLower key) ''.png'' then (True, ''png'')
      else (False, ''''))"
  by (simp add: isImageFile_def supportedExtensions_def)

lemma isImageFile_ext:
  "isImageFile key = (True, ext) \<Longrightarrow> ext = ''jpg'' \<or> ext = ''jpeg'' \<or> ext = ''png''"
  by (auto simp: isImageFile_unfold split: if_splits)

lemma isImageFile_False: "\<not> fst (isImageFile key) \<Longrightarrow> isImageFile key = (False, '''')"
  by (auto simp: isImageFile_unfold split: if_splits)

lemma lowerByte_slash: "lowerByte c \<noteq> CHR ''g'' \<or> c \<noteq> CHR ''/''"
  by (auto simp: lowerByte_def)

lemma supported_key_last:
  assumes "isImageFile key = (True, ext)"
  shows "key \<noteq> [] \<and> last key \<noteq> CHR ''/''"
proof -
  from assms obtain sfx p where s: "ToLower key = p @ sfx" and g: "sfx \<noteq> [] \<and> last sfx = CHR ''g''"
    by (auto simp: isImageFile_unfold HasSuffix_iff split: if_splits)
  then have ne: "key \<noteq> []" by (auto simp: ToLower_def)
  from s g have "last (ToLower key) = CHR ''g''" by simp
  with ne have "lowerByte (last key) = CHR ''g''"
    by (simp add: ToLower_def last_map)
  with ne show ?thesis using lowerByte_slash by auto
qed

lemma afterLastSlash_split:
  "\<exists>dir. p = dir @ afterLastSlash p \<and> (dir = [] \<or> last dir = CHR ''/'') \<and>
         CHR ''/'' \<notin> set (afterLastSlash p)"
proof -
  let ?P = "\<lambda>c. c \<noteq> CHR ''/''"
  have a: "rev p = takeWhile ?P (rev p) @ dropWhile ?P (rev p)" by simp
  then have "p = rev (dropWhile ?P (rev p)) @ rev (takeWhile ?P (rev p))"
    by (metis rev_append rev_rev_ident)
  moreover have "rev (dropWhile ?P (rev p)) = [] \<or> last (rev (dropWhile ?P (rev p))) = CHR ''/''"
  proof (cases "dropWhile ?P (rev p) = []")
    case True
    then show ?thesis by simp
  next
    case False
    then have "\<not> ?P (hd (dropWhile ?P (rev p)))" by (rule hd_dropWhile)
    with False show ?thesis by (simp add: last_rev)
  qed
  moreover have "CHR ''/'' \<notin> set (rev (takeWhile ?P (rev p)))"
    by (auto dest: set_takeWhileD)
  ultimately show ?thesis unfolding afterLastSlash_def by blast
qed

lemma Base_supported:
  assumes "isImageFile key = (True, ext)"
  shows "Base key = afterLastSlash key \<and> Base key \<noteq> []"
proof -
  from supported_key_last [OF assms] have ne: "key \<noteq> []" and l: "last key \<noteq> CHR ''/''" by auto
  then have "hd (rev key) \<noteq> CHR ''/''" by (simp add: hd_rev)
  with ne have "dropWhile (\<lambda>c. c = CHR ''/'') (rev key) = rev key"
    by (cases "rev key") auto
  then have s: "stripTrailingSlashes key = key" by (simp add: stripTrailingSlashes_def)
  from ne l have "takeWhile (\<lambda>c. c \<noteq> CHR ''/'') (rev key) \<noteq> []"
    by (cases "rev key") (auto simp: last_rev hd_rev)
  then have "afterLastSlash key \<noteq> []" by (simp add: afterLastSlash_def)
  with ne s show ?thesis by (simp add: Base_def Let_def)
qed

lemma Base_of_name:
  assumes "CHR ''/'' \<notin> set b" and "b \<noteq> []"
  shows "Base (d @ CHR ''/'' # b) = b"
proof -
  from assms obtain x xs where r: "rev b = x # xs" by (cases "rev b") auto
  then have "x \<in> set b" by (metis list.set_intros(1) set_rev)
  with assms have x: "x \<noteq> CHR ''/''" by metis
  have "dropWhile (\<lambda>c. c = CHR ''/'') (rev (d @ CHR ''/'' # b)) = rev (d @ CHR ''/'' # b)"
    using r x by simp
  then have s: "stripTrailingSlashes (d @ CHR ''/'' # b) = d @ CHR ''/'' # b"
    by (simp add: stripTrailingSlashes_def)
  have "takeWhile (\<lambda>c. c \<noteq> CHR ''/'') (rev b @ CHR ''/'' # rev d) = rev b"
    using assms by (subst takeWhile_append2) auto
  then have "afterLastSlash (d @ CHR ''/'' # b) = b" by (simp add: afterLastSlash_def)
  with s assms show ?thesis by (simp add: Base_def Let_def)
qed

subsection \<open>The shape of a run of the worker\<close>

lemma addLabel_Some:
  assumes "lookup h img = Some src"
    and "NewRGBA (makeBytes lb) (Bounds src) = Some blank"
  shows "\<exists>h' buf. addLabel lb h img x y label = Some (h', length h) \<and>
           length h' = Suc (length h) \<and>
           lookup h' (length h) = Some (RGBAObject buf)"
  using assms by (simp add: addLabel_def Let_def lookup_def)

lemma labelImage_Some:
  assumes "lookup h img = Some src"
    and "NewRGBA (makeBytes lb) (Bounds src) = Some blank"
  shows "\<exists>h' buf. labelImage lb h img = Some (h', length h) \<and>
           lookup h' (length h) = Some (RGBAObject buf)"
  using addLabel_Some [OF assms, where x = 0 and y = 0 and label = watermark]
    addLabel_Some [OF assms, where x = 20 and y = 20 and label = watermark] assms
  by (auto simp: labelImage_def Let_def)

lemma labelImage_decoded:
  assumes "NewRGBA (makeBytes lb) (Bounds img) = Some blank"
  shows "\<exists>h' buf. labelImage lb [img] 0 = Some (h', 1) \<and> lookup h' 1 = Some (RGBAObject buf)"
  using labelImage_Some [of "[img]" 0 img lb blank] assms by (simp add: lookup_def)

text \<open>The run of the worker on a supported key, with the branches that cannot be taken removed.\<close>

lemma handleImage_supported:
  assumes "isImageFile (ObjectKey rec) = (True, ext)"
    and "labelImage (lib env) [img] 0 = Some (h, r)"
    and "lookup h r = Some labeled"
    and "GetObject env (BucketName rec) (ObjectKey rec) = Inr body"
    and "Decode env body = Inr (img, format)"
  shows "handleImage env rec =
     (case encodeImage env ext labeled of
        Inl err \<Rightarrow> (Exit1, [GetObjectCall (BucketName rec) (ObjectKey rec)])
      | Inr buf \<Rightarrow>
          (case PutObject env (putInput rec ext buf) of
             Some err \<Rightarrow> (Exit1, [GetObjectCall (BucketName rec) (ObjectKey rec),
                                  PutObjectCall (putInput rec ext buf)])
           | None \<Rightarrow> (Returned, [GetObjectCall (BucketName rec) (ObjectKey rec),
                                 PutObjectCall (putInput rec ext buf)])))"
  using assms by (simp add: handleImage_def Let_def)

lemma handleImage_put:
  assumes "isImageFile (ObjectKey rec) = (True, ext)"
    and "handleImage env rec = (out, calls)"
    and "PutObjectCall inp \<in> set calls"
  shows "\<exists>body img format h r labeled buf.
           GetObject env (BucketName rec) (ObjectKey rec) = Inr body \<and>
           Decode env body = Inr (img, format) \<and>
           labelImage (lib env) [img] 0 = Some (h, r) \<and>
           lookup h r = Some labeled \<and>
           encodeImage env ext labeled = Inr buf \<and>
           inp = putInput rec ext buf \<and>
           calls = [GetObjectCall (BucketName rec) (ObjectKey rec), PutObjectCall inp] \<and>
           out = (if PutObject env inp = None then Returned else Exit1)"
  using assms
  by (auto simp: handleImage_def Let_def split: sum.splits option.splits prod.splits if_splits)

subsection \<open>Evaluations on the example inputs\<close>

lemma small_fits:
  "NewRGBA (makeBytes demoLib) (Bounds smallImage) = Some (blankRGBA (Rect 0 0 10 10))"
  by (simp add: NewRGBA_def mul3NonNeg_def Dx_def Dy_def wrap64_def smallImage_def Rect_def
      demoLib_def Let_def)

lemma cat_png: "isImageFile ''photos/cat.PNG'' = (True, ''png'')"
  by (simp add: isImageFile_unfold HasSuffix_def ToLower_def lowerByte_def char_of_eq_iff)

lemma dog_jpg: "isImageFile ''photos/dog.jpg'' = (True, ''jpg'')"
  by (simp add: isImageFile_unfold HasSuffix_def ToLower_def lowerByte_def char_of_eq_iff)

lemma readme_txt: "isImageFile ''docs/readme.txt'' = (False, '''')"
  by (simp add: isImageFile_unfold HasSuffix_def ToLower_def lowerByte_def char_of_eq_iff)

lemma Base_cat: "Base ''photos/cat.PNG'' = ''cat.PNG''"
  by (simp add: Base_def stripTrailingSlashes_def afterLastSlash_def)

lemma Base_dog: "Base ''photos/dog.jpg'' = ''dog.jpg''"
  by (simp add: Base_def stripTrailingSlashes_def afterLastSlash_def)

lemma labeled_png: "isImageFile ''labeled-images/cat.png'' = (True, ''png'')"
  by (simp add: isImageFile_unfold HasSuffix_def ToLower_def lowerByte_def char_of_eq_iff)

lemma Base_labeled: "Base ''labeled-images/cat.png'' = ''cat.png''"
  by (simp add: Base_def stripTrailingSlashes_def afterLastSlash_def)

lemma demo_cat_run:
  "handleImage demoEnv catRecord =
     (Returned, [GetObjectCall ''uploads'' ''photos/cat.PNG'',
                 PutObjectCall \<lparr>Bucket = ''uploads'', Key = ''labeled-images/cat.PNG'',
                                Body = [137, 80], ContentType = ''image/png''\<rparr>])"
proof -
  obtain h buf where "labelImage demoLib [smallImage] 0 = Some (h, 1)"
    and "lookup h 1 = Some (RGBAObject buf)"
    using labelImage_decoded [OF small_fits] by blast
  then show ?thesis
    using handleImage_supported [of catRecord "''png''" demoEnv smallImage h 1
        "RGBAObject buf" "[1, 2, 3]" "''png''"]
    by (simp add: demoEnv_def catRecord_def cat_png encodeImage_def putInput_def Base_cat)
qed

lemma demo_labeled_run:
  "handleImage demoEnv labeledRecord =
     (Returned, [GetObjectCall ''uploads'' ''labeled-images/cat.png'',
                 PutObjectCall \<lparr>Bucket = ''uploads'', Key = ''labeled-images/cat.png'',
                                Body = [137, 80], ContentType = ''image/png''\<rparr>])"
proof -
  obtain h buf where "labelImage demoLib [smallImage] 0 = Some (h, 1)"
    and "lookup h 1 = Some (RGBAObject buf)"
    using labelImage_decoded [OF small_fits] by blast
  then show ?thesis
    using handleImage_supported [of labeledRecord "''png''" demoEnv smallImage h 1
        "RGBAObject buf" "[1, 2, 3]" "''png''"]
    by (simp add: demoEnv_def labeledRecord_def labeled_png encodeImage_def putInput_def
        Base_labeled)
qed

lemma failingGet_run:
  "handleImage failingGet catRecord = (Exit1, [GetObjectCall ''uploads'' ''photos/cat.PNG''])"
  by (simp add: handleImage_def failingGet_def demoEnv_def catRecord_def cat_png)

lemma failingDecode_run:
  "handleImage failingDecode catRecord = (Exit1, [GetObjectCall ''uploads'' ''photos/cat.PNG''])"
  by (simp add: handleImage_def failingDecode_def demoEnv_def catRecord_def cat_png)

lemma failingPut_run:
  "handleImage failingPut catRecord =
     (Exit1, [GetObjectCall ''uploads'' ''photos/cat.PNG'',
              PutObjectCall \<lparr>Bucket = ''uploads'', Key = ''labeled-images/cat.PNG'',
                             Body = [137, 80], ContentType = ''image/png''\<rparr>])"
proof -
  obtain h buf where "labelImage demoLib [smallImage] 0 = Some (h, 1)"
    and "lookup h 1 = Some (RGBAObject buf)"
    using labelImage_decoded [OF small_fits] by blast
  then show ?thesis
    using handleImage_supported [of catRecord "''png''" failingPut smallImage h 1
        "RGBAObject buf" "[1, 2, 3]" "''png''"]
    by (simp add: failingPut_def demoEnv_def catRecord_def cat_png encodeImage_def putInput_def
        Base_cat)
qed

subsection \<open>What a run calls\<close>

lemma isImageFile_ends:
  "isImageFile key = (True, ext) \<Longrightarrow> ends_case_insensitively key (CHR ''.'' # ext)"
  by (auto simp: isImageFile_unfold HasSuffix_ToLower split: if_splits)

lemma handleImage_Returned:
  assumes "isImageFile (ObjectKey rec) = (True, ext)"
    and "handleImage env rec = (Returned, calls)"
  shows "\<exists>buf. calls = [GetObjectCall (BucketName rec) (ObjectKey rec),
                         PutObjectCall (putInput rec ext buf)]"
  using assms
  by (auto simp: handleImage_def Let_def split: sum.splits option.splits prod.splits if_splits)

lemma Base_splits_key:
  assumes "isImageFile key = (True, ext)"
  shows "\<exists>dir. key = dir @ Base key \<and> (dir = [] \<or> last dir = CHR ''/'') \<and>
               CHR ''/'' \<notin> set (Base key)"
  using afterLastSlash_split [of key] Base_supported [OF assms] by simp

lemma handleImage_calls:
  assumes "handleImage env rec = (out, calls)"
  shows "calls = [] \<or> calls = [GetObjectCall (BucketName rec) (ObjectKey rec)] \<or>
         (\<exists>ext buf. isImageFile (ObjectKey rec) = (True, ext) \<and>
            calls = [GetObjectCall (BucketName rec) (ObjectKey rec),
                     PutObjectCall (putInput rec ext buf)])"
  using assms
  by (auto simp: handleImage_def Let_def split: sum.splits option.splits prod.splits if_splits)

lemma overwrite_iff:
  assumes "isImageFile key = (True, ext)"
  shows "''labeled-images/'' @ Base key = key \<longleftrightarrow>
         (\<exists>name. key = ''labeled-images/'' @ name \<and> CHR ''/'' \<notin> set name)"
proof
  assume "''labeled-images/'' @ Base key = key"
  moreover from Base_splits_key [OF assms] have "CHR ''/'' \<notin> set (Base key)" by blast
  ultimately show "\<exists>name. key = ''labeled-images/'' @ name \<and> CHR ''/'' \<notin> set name"
    by metis
next
  assume "\<exists>name. key = ''labeled-images/'' @ name \<and> CHR ''/'' \<notin> set name"
  then obtain name where k: "key = ''labeled-images/'' @ name" and n: "CHR ''/'' \<notin> set name"
    by blast
  have "name \<noteq> []"
  proof
    assume "name = []"
    with k have "last key = CHR ''/''" by simp
    with supported_key_last [OF assms] show False by simp
  qed
  with n have "Base (''labeled-images'' @ CHR ''/'' # name) = name" by (rule Base_of_name)
  with k show "''labeled-images/'' @ Base key = key" by simp
qed

subsection \<open>Claim about the classifier\<close>

text \<open>
  Claim C2. \<open>isImageFile key\<close> is \<open>(True, e)\<close> exactly when \<open>e\<close> is one of \<open>jpg\<close>,
  \<open>jpeg\<close>, \<open>png\<close> and the key ends, case-insensitively, in a dot followed by \<open>e\<close>; the
  extension returned is the lower-case one without its dot. When the key ends in none of
  the three, the result is \<open>(False, "")\<close>. The classifier is a function of the key alone.
\<close>

theorem isImageFile_classifies:
  "(isImageFile key = (True, e) \<longleftrightarrow>
      (e = ''jpg'' \<or> e = ''jpeg'' \<or> e = ''png'') \<and>
      ends_case_insensitively key (CHR ''.'' # e)) \<and>
   ((\<forall>e \<in> {''jpg'', ''jpeg'', ''png''}. \<not> ends_case_insensitively key (CHR ''.'' # e))
      \<longrightarrow> isImageFile key = (False, ''''))"
  using jpg_not_jpeg [of "ToLower key"] jpg_not_png [of "ToLower key"]
    jpeg_not_png [of "ToLower key"]
  by (auto simp: isImageFile_unfold HasSuffix_ToLower)

theorem isImageFile_classifies_witness:
  "isImageFile ''a/b.jpg'' = (True, ''jpg'') \<and> isImageFile ''a/b.JPG'' = (True, ''jpg'') \<and>
   isImageFile ''photos/cat.PNG'' = (True, ''png'') \<and>
   isImageFile ''x.Jpeg'' = (True, ''jpeg'') \<and>
   isImageFile ''docs/readme.txt'' = (False, '''') \<and>
   isImageFile ''jpg'' = (False, '''')"
  using isImageFile_classifies [of "''a/b.jpg''" "''jpg''"]
    isImageFile_classifies [of "''a/b.JPG''" "''jpg''"]
    isImageFile_classifies [of "''photos/cat.PNG''" "''png''"]
    isImageFile_classifies [of "''x.Jpeg''" "''jpeg''"]
    isImageFile_classifies [of "''docs/readme.txt''"]
    isImageFile_classifies [of "''jpg''"]
  by (simp add: ends_case_insensitively_def lowerByte_def char_of_eq_iff)

subsection \<open>Claims about the worker\<close>

text \<open>
  Claim C7. A record whose key the classifier rejects makes the worker return at once:
  no call on the S3 client (no fetch, no store) and no fatal exit or panic.
\<close>

theorem unsupported_key_is_skipped:
  "\<not> fst (isImageFile (ObjectKey rec)) \<Longrightarrow> handleImage env rec = (Returned, [])"
  using isImageFile_False [of "ObjectKey rec"] by (simp add: handleImage_def)

theorem unsupported_key_is_skipped_witness:
  "\<not> fst (isImageFile (ObjectKey readmeRecord)) \<and> handleImage demoEnv readmeRecord = (Returned, [])"
  using unsupported_key_is_skipped [of readmeRecord demoEnv]
  by (simp add: readmeRecord_def readme_txt)

text \<open>
  Claim C4. When the key is supported and the run returns, the worker has stored exactly
  one object: in the bucket of the record, under \<open>labeled-images/\<close> followed by the base
  name of the key, with content type \<open>image/\<close> followed by the classifier's extension as
  it is (\<open>jpg\<close> stays \<open>jpg\<close>). The base name is what follows the last slash of the key,
  byte for byte, and holds no slash.
\<close>

theorem completed_run_stores_one_object:
  assumes "isImageFile (ObjectKey rec) = (True, ext)"
    and "handleImage env rec = (Returned, calls)"
  shows "\<exists>buf dir.
           calls = [GetObjectCall (BucketName rec) (ObjectKey rec),
                    PutObjectCall \<lparr>Bucket = BucketName rec,
                                   Key = ''labeled-images/'' @ Base (ObjectKey rec),
                                   Body = buf,
                                   ContentType = ''image/'' @ ext\<rparr>] \<and>
           ObjectKey rec = dir @ Base (ObjectKey rec) \<and>
           (dir = [] \<or> last dir = CHR ''/'') \<and>
           CHR ''/'' \<notin> set (Base (ObjectKey rec)) \<and>
           (ext = ''jpg'' \<or> ext = ''jpeg'' \<or> ext = ''png'') \<and>
           ends_case_insensitively (ObjectKey rec) (CHR ''.'' # ext)"
proof -
  from handleImage_Returned [OF assms] obtain buf where
    c: "calls = [GetObjectCall (BucketName rec) (ObjectKey rec),
                 PutObjectCall (putInput rec ext buf)]" ..
  from Base_splits_key [OF assms(1)] obtain dir where
    d: "ObjectKey rec = dir @ Base (ObjectKey rec)" "dir = [] \<or> last dir = CHR ''/''"
       "CHR ''/'' \<notin> set (Base (ObjectKey rec))" by blast
  from c d isImageFile_ext [OF assms(1)] isImageFile_ends [OF assms(1)]
  show ?thesis unfolding putInput_def by blast
qed

theorem completed_run_stores_one_object_witness:
  "isImageFile (ObjectKey catRecord) = (True, ''png'') \<and>
   handleImage demoEnv catRecord =
     (Returned, [GetObjectCall ''uploads'' ''photos/cat.PNG'',
                 PutObjectCall \<lparr>Bucket = ''uploads'', Key = ''labeled-images/cat.PNG'',
                                Body = [137, 80], ContentType = ''image/png''\<rparr>]) \<and>
   Base (ObjectKey catRecord) = ''cat.PNG'' \<and>
   ends_case_insensitively (ObjectKey catRecord) ''.png''"
proof -
  have k: "isImageFile (ObjectKey catRecord) = (True, ''png'')"
    by (simp add: catRecord_def cat_png)
  from completed_run_stores_one_object [OF k demo_cat_run]
  have "ends_case_insensitively (ObjectKey catRecord) ''.png''" by blast
  with k demo_cat_run show ?thesis by (simp add: catRecord_def Base_cat)
qed

text \<open>
  Claim C10. Whatever the run does, it makes at most one store call; a store call goes to
  the bucket of the record and to a key that starts with \<open>labeled-images/\<close>; and that
  key is the key of the fetched object exactly when the fetched key is itself
  \<open>labeled-images/\<close> followed by a name without slash, in which case the store
  overwrites the object that was fetched.
\<close>

theorem stores_only_under_prefix:
  assumes "handleImage env rec = (out, calls)"
  shows "length (filter isPut calls) \<le> 1 \<and>
         (\<forall>inp. PutObjectCall inp \<in> set calls \<longrightarrow>
            Bucket inp = BucketName rec \<and>
            (\<exists>name. Key inp = ''labeled-images/'' @ name) \<and>
            (Key inp = ObjectKey rec \<longleftrightarrow>
               (\<exists>name. ObjectKey rec = ''labeled-images/'' @ name \<and> CHR ''/'' \<notin> set name)))"
proof -
  from handleImage_calls [OF assms]
  consider "calls = []" | "calls = [GetObjectCall (BucketName rec) (ObjectKey rec)]"
    | ext buf where "isImageFile (ObjectKey rec) = (True, ext)"
        "calls = [GetObjectCall (BucketName rec) (ObjectKey rec),
                  PutObjectCall (putInput rec ext buf)]"
    by blast
  then show ?thesis
  proof cases
    case 1
    then show ?thesis by simp
  next
    case 2
    then show ?thesis by (simp add: isPut_def)
  next
    case 3
    with overwrite_iff [OF 3(1)] show ?thesis
      by (simp add: isPut_def putInput_def)
  qed
qed

theorem stores_only_under_prefix_witness:
  "handleImage demoEnv catRecord =
     (Returned, [GetObjectCall ''uploads'' ''photos/cat.PNG'',
                 PutObjectCall \<lparr>Bucket = ''uploads'', Key = ''labeled-images/cat.PNG'',
                                Body = [137, 80], ContentType = ''image/png''\<rparr>]) \<and>
   \<not> (\<exists>name. ObjectKey catRecord = ''labeled-images/'' @ name \<and> CHR ''/'' \<notin> set name) \<and>
   handleImage demoEnv labeledRecord =
     (Returned, [GetObjectCall ''uploads'' ''labeled-images/cat.png'',
                 PutObjectCall \<lparr>Bucket = ''uploads'', Key = ''labeled-images/cat.png'',
                                Body = [137, 80], ContentType = ''image/png''\<rparr>]) \<and>
   (\<exists>name. ObjectKey labeledRecord = ''labeled-images/'' @ name \<and> CHR ''/'' \<notin> set name)"
  using stores_only_under_prefix [OF demo_cat_run] stores_only_under_prefix [OF demo_labeled_run]
    demo_cat_run demo_labeled_run
  by (simp add: catRecord_def labeledRecord_def)

text \<open>
  Claim C8. On a supported key, a failed fetch and a failed decode each end the process
  (\<open>log.Fatalf\<close>) after the fetch call alone, with nothing stored. A store call is made
  only after fetch, decode, labelling and encoding have all succeeded, it carries the
  whole encoded buffer, it is the only store call of the run, and when it fails the
  process ends as well.
\<close>

theorem failure_is_fatal:
  assumes "isImageFile (ObjectKey rec) = (True, ext)"
  shows "(GetObject env (BucketName rec) (ObjectKey rec) = Inl err \<longrightarrow>
            handleImage env rec = (Exit1, [GetObjectCall (BucketName rec) (ObjectKey rec)])) \<and>
         (GetObject env (BucketName rec) (ObjectKey rec) = Inr body \<and> Decode env body = Inl err \<longrightarrow>
            handleImage env rec = (Exit1, [GetObjectCall (BucketName rec) (ObjectKey rec)])) \<and>
         (handleImage env rec = (out, calls) \<and> PutObjectCall inp \<in> set calls \<longrightarrow>
            (\<exists>body img format h r labeled.
               GetObject env (BucketName rec) (ObjectKey rec) = Inr body \<and>
               Decode env body = Inr (img, format) \<and>
               labelImage (lib env) [img] 0 = Some (h, r) \<and>
               lookup h r = Some labeled \<and>
               encodeImage env ext labeled = Inr (Body inp)) \<and>
            calls = [GetObjectCall (BucketName rec) (ObjectKey rec), PutObjectCall inp] \<and>
            (PutObject env inp \<noteq> None \<longrightarrow> out = Exit1))"
proof (intro conjI impI)
  assume "GetObject env (BucketName rec) (ObjectKey rec) = Inl err"
  with assms show "handleImage env rec = (Exit1, [GetObjectCall (BucketName rec) (ObjectKey rec)])"
    by (simp add: handleImage_def)
next
  assume "GetObject env (BucketName rec) (ObjectKey rec) = Inr body \<and> Decode env body = Inl err"
  with assms show "handleImage env rec = (Exit1, [GetObjectCall (BucketName rec) (ObjectKey rec)])"
    by (simp add: handleImage_def)
next
  assume "handleImage env rec = (out, calls) \<and> PutObjectCall inp \<in> set calls"
  then have r: "handleImage env rec = (out, calls)" and p: "PutObjectCall inp \<in> set calls"
    by simp_all
  from handleImage_put [OF assms r p] obtain body img format h r labeled buf where
    run: "GetObject env (BucketName rec) (ObjectKey rec) = Inr body"
      "Decode env body = Inr (img, format)"
      "labelImage (lib env) [img] 0 = Some (h, r)"
      "lookup h r = Some labeled"
      "encodeImage env ext labeled = Inr buf"
    and inp: "inp = putInput rec ext buf"
    and calls: "calls = [GetObjectCall (BucketName rec) (ObjectKey rec), PutObjectCall inp]"
    and out: "out = (if PutObject env inp = None then Returned else Exit1)"
    by blast
  from inp have "Body inp = buf" by (simp add: putInput_def)
  with run show "\<exists>body img format h r labeled.
               GetObject env (BucketName rec) (ObjectKey rec) = Inr body \<and>
               Decode env body = Inr (img, format) \<and>
               labelImage (lib env) [img] 0 = Some (h, r) \<and>
               lookup h r = Some labeled \<and>
               encodeImage env ext labeled = Inr (Body inp)"
    by blast
  from calls show "calls = [GetObjectCall (BucketName rec) (ObjectKey rec), PutObjectCall inp]" .
  assume "PutObject env inp \<noteq> None"
  with out show "out = Exit1" by simp
qed

theorem failure_is_fatal_witness:
  "isImageFile (ObjectKey catRecord) = (True, ''png'') \<and>
   GetObject failingGet (BucketName catRecord) (ObjectKey catRecord) = Inl ''NoSuchKey'' \<and>
   handleImage failingGet catRecord = (Exit1, [GetObjectCall ''uploads'' ''photos/cat.PNG'']) \<and>
   GetObject failingDecode (BucketName catRecord) (ObjectKey catRecord) = Inr [1, 2, 3] \<and>
   Decode failingDecode [1, 2, 3] = Inl ''image: unknown format'' \<and>
   handleImage failingDecode catRecord = (Exit1, [GetObjectCall ''uploads'' ''photos/cat.PNG'']) \<and>
   handleImage failingPut catRecord = (Exit1, [GetObjectCall ''uploads'' ''photos/cat.PNG'', PutObjectCall catOutput]) \<and>
   PutObject failingPut catOutput \<noteq> None"
proof -
  have k: "isImageFile (ObjectKey catRecord) = (True, ''png'')"
    by (simp add: catRecord_def cat_png)
  have g: "GetObject failingGet (BucketName catRecord) (ObjectKey catRecord) = Inl ''NoSuchKey''"
    by (simp add: failingGet_def)
  have d: "GetObject failingDecode (BucketName catRecord) (ObjectKey catRecord) = Inr [1, 2, 3]"
    "Decode failingDecode [1, 2, 3] = Inl ''image: unknown format''"
    by (simp_all add: failingDecode_def demoEnv_def)
  have n: "BucketName catRecord = ''uploads''" "ObjectKey catRecord = ''photos/cat.PNG''"
    by (simp_all add: catRecord_def)
  have p: "PutObject failingPut catOutput \<noteq> None" by (simp add: failingPut_def)
  from failure_is_fatal [OF k, where env = failingGet and err = "''NoSuchKey''"] g
  have 1: "handleImage failingGet catRecord = (Exit1, [GetObjectCall ''uploads'' ''photos/cat.PNG''])"
    unfolding n by blast
  from failure_is_fatal [OF k, where env = failingDecode and body = "[1, 2, 3]"
      and err = "''image: unknown format''"] d
  have 2: "handleImage failingDecode catRecord = (Exit1, [GetObjectCall ''uploads'' ''photos/cat.PNG''])"
    unfolding n by blast
  obtain out calls where r: "handleImage failingPut catRecord = (out, calls)"
    by (cases "handleImage failingPut catRecord")
  have "PutObjectCall catOutput \<in> set calls"
    using r failingPut_run by (auto simp: catOutput_def)
  with failure_is_fatal [OF k, where env = failingPut and out = out and calls = calls
      and inp = catOutput] r p
  have "calls = [GetObjectCall ''uploads'' ''photos/cat.PNG'', PutObjectCall catOutput] \<and> out = Exit1"
    unfolding n by blast
  with r have 3: "handleImage failingPut catRecord =
      (Exit1, [GetObjectCall ''uploads'' ''photos/cat.PNG'', PutObjectCall catOutput])" by simp
  from k g d 1 2 3 p show ?thesis by blast
qed

lemma demo_dog_run:
  "handleImage demoEnv dogRecord =
     (Returned, [GetObjectCall ''uploads'' ''photos/dog.jpg'',
                 PutObjectCall \<lparr>Bucket = ''uploads'', Key = ''labeled-images/dog.jpg'',
                                Body = [255, 216], ContentType = ''image/jpg''\<rparr>])"
proof -
  obtain h buf where "labelImage demoLib [smallImage] 0 = Some (h, 1)"
    and "lookup h 1 = Some (RGBAObject buf)"
    using labelImage_decoded [OF small_fits] by blast
  then show ?thesis
    using handleImage_supported [of dogRecord "''jpg''" demoEnv smallImage h 1
        "RGBAObject buf" "[1, 2, 3]" "''png''"]
    by (simp add: demoEnv_def dogRecord_def dog_jpg encodeImage_def putInput_def Base_dog)
qed

lemma handleImage_Decode_format:
  assumes "\<forall>body. map_sum id fst (d body) = map_sum id fst (Decode env body)"
  shows "handleImage (env\<lparr>Decode := d\<rparr>) rec = handleImage env rec"
proof (cases "GetObject env (BucketName rec) (ObjectKey rec)")
  case (Inl err)
  then show ?thesis
    by (simp add: handleImage_def Let_def encodeImage_def split: prod.splits)
next
  case (Inr body)
  from assms have e: "map_sum id fst (d body) = map_sum id fst (Decode env body)" ..
  show ?thesis
  proof (cases "Decode env body")
    case (Inl err)
    with e have "d body = Inl err" by (cases "d body") auto
    with Inl Inr show ?thesis
      by (simp add: handleImage_def Let_def encodeImage_def split: prod.splits)
  next
    case (Inr pair)
    obtain img format where p: "pair = (img, format)" by (cases pair)
    from e Inr p obtain format' where "d body = Inr (img, format')"
      by (cases "d body") auto
    with Inr p \<open>GetObject env (BucketName rec) (ObjectKey rec) = Inr body\<close> show ?thesis
      by (simp add: handleImage_def Let_def encodeImage_def
          split: prod.splits option.splits sum.splits)
  qed
qed

text \<open>
  Claim C5. On a supported key, the body of a store call is what the png encoder wrote
  when the extension is \<open>png\<close> and what the jpeg encoder wrote when it is \<open>jpeg\<close> or
  \<open>jpg\<close>, applied to the labelled image. The format name that \<open>image.Decode\<close> reports
  from the bytes is dropped: two environments whose decoders agree on errors and images
  and differ in the reported format give the same run.
\<close>

theorem codec_follows_extension:
  assumes "isImageFile (ObjectKey rec) = (True, ext)"
  shows "(handleImage env rec = (out, calls) \<and> PutObjectCall inp \<in> set calls \<longrightarrow>
            (\<exists>body img format h r labeled.
               GetObject env (BucketName rec) (ObjectKey rec) = Inr body \<and>
               Decode env body = Inr (img, format) \<and>
               labelImage (lib env) [img] 0 = Some (h, r) \<and>
               lookup h r = Some labeled \<and>
               (ext = ''png'' \<and> png_Encode env labeled = Inr (Body inp) \<or>
                (ext = ''jpeg'' \<or> ext = ''jpg'') \<and> jpeg_Encode env labeled = Inr (Body inp)))) \<and>
         ((\<forall>body. map_sum id fst (d body) = map_sum id fst (Decode env body)) \<longrightarrow>
            handleImage (env\<lparr>Decode := d\<rparr>) rec = handleImage env rec)"
proof (intro conjI impI)
  assume "handleImage env rec = (out, calls) \<and> PutObjectCall inp \<in> set calls"
  then have r: "handleImage env rec = (out, calls)" and p: "PutObjectCall inp \<in> set calls"
    by simp_all
  from handleImage_put [OF assms r p] obtain body img format h r labeled buf where
    run: "GetObject env (BucketName rec) (ObjectKey rec) = Inr body"
      "Decode env body = Inr (img, format)"
      "labelImage (lib env) [img] 0 = Some (h, r)"
      "lookup h r = Some labeled"
    and enc: "encodeImage env ext labeled = Inr buf"
    and inp: "inp = putInput rec ext buf"
    by blast
  from inp have b: "Body inp = buf" by (simp add: putInput_def)
  from isImageFile_ext [OF assms] enc b
  have "ext = ''png'' \<and> png_Encode env labeled = Inr (Body inp) \<or>
        (ext = ''jpeg'' \<or> ext = ''jpg'') \<and> jpeg_Encode env labeled = Inr (Body inp)"
    by (auto simp: encodeImage_def)
  with run show "\<exists>body img format h r labeled.
               GetObject env (BucketName rec) (ObjectKey rec) = Inr body \<and>
               Decode env body = Inr (img, format) \<and>
               labelImage (lib env) [img] 0 = Some (h, r) \<and>
               lookup h r = Some labeled \<and>
               (ext = ''png'' \<and> png_Encode env labeled = Inr (Body inp) \<or>
                (ext = ''jpeg'' \<or> ext = ''jpg'') \<and> jpeg_Encode env labeled = Inr (Body inp))"
    by blast
next
  assume "\<forall>body. map_sum id fst (d body) = map_sum id fst (Decode env body)"
  then show "handleImage (env\<lparr>Decode := d\<rparr>) rec = handleImage env rec"
    by (rule handleImage_Decode_format)
qed

theorem codec_follows_extension_witness:
  "isImageFile (ObjectKey dogRecord) = (True, ''jpg'') \<and>
   Decode demoEnv [1, 2, 3] = Inr (smallImage, ''png'') \<and>
   handleImage demoEnv dogRecord =
     (Returned, [GetObjectCall ''uploads'' ''photos/dog.jpg'', PutObjectCall dogOutput]) \<and>
   (\<exists>labeled. jpeg_Encode demoEnv labeled = Inr (Body dogOutput)) \<and>
   handleImage (demoEnv\<lparr>Decode := (\<lambda>body. Inr (smallImage, ''jpeg''))\<rparr>) dogRecord =
     handleImage demoEnv dogRecord"
proof -
  have k: "isImageFile (ObjectKey dogRecord) = (True, ''jpg'')"
    by (simp add: dogRecord_def dog_jpg)
  have s: "Decode demoEnv [1, 2, 3] = Inr (smallImage, ''png'')"
    by (simp add: demoEnv_def)
  have r: "handleImage demoEnv dogRecord =
     (Returned, [GetObjectCall ''uploads'' ''photos/dog.jpg'', PutObjectCall dogOutput])"
    using demo_dog_run by (simp add: dogOutput_def)
  then have p: "PutObjectCall dogOutput \<in> set [GetObjectCall ''uploads'' ''photos/dog.jpg'',
      PutObjectCall dogOutput]" by simp
  from codec_follows_extension [OF k, where env = demoEnv and inp = dogOutput] r p
  have 1: "\<exists>labeled. jpeg_Encode demoEnv labeled = Inr (Body dogOutput)"
    by blast
  have "\<forall>body. map_sum id fst (Inr (smallImage, ''jpeg'') :: string + Object \<times> string) =
      map_sum id fst (Decode demoEnv body)"
    by (simp add: demoEnv_def)
  with codec_follows_extension [OF k, where env = demoEnv
      and d = "\<lambda>body. Inr (smallImage, ''jpeg'')"]
  have 2: "handleImage (demoEnv\<lparr>Decode := (\<lambda>body. Inr (smallImage, ''jpeg''))\<rparr>) dogRecord =
     handleImage demoEnv dogRecord"
    by blast
  from k s r 1 2 show ?thesis by blast
qed

text \<open>
  The \<open>switch\<close> on the extension is entered with one of its three cases only: whenever a
  run stores an object, the extension is the classifier's, one of \<open>jpg\<close>, \<open>jpeg\<close>,
  \<open>png\<close>, and it is the one in the content type.
\<close>

lemma store_has_supported_extension:
  assumes "handleImage env rec = (out, calls)"
    and "PutObjectCall inp \<in> set calls"
  shows "\<exists>ext. isImageFile (ObjectKey rec) = (True, ext) \<and>
               (ext = ''jpg'' \<or> ext = ''jpeg'' \<or> ext = ''png'') \<and>
               ContentType inp = ''image/'' @ ext"
proof -
  from handleImage_calls [OF assms(1)] assms(2) obtain ext buf where
    k: "isImageFile (ObjectKey rec) = (True, ext)" and i: "inp = putInput rec ext buf"
    by auto
  from isImageFile_ext [OF k] k i show ?thesis by (auto simp: putInput_def)
qed

text \<open>
  Claim C1. The jpeg and png decoders allocate their images with
  \<open>image.Rect(0, 0, width, height)\<close>: the bounds of a decoded image of that width and
  height. For such an image the worker calls addLabel with the anchor of the placement
  policy, \<open>(0, 0)\<close> when width and height are both below 20 and \<open>(20, 20)\<close> otherwise,
  and with the label "This is watermark".
\<close>

theorem placement_policy:
  assumes "lookup h img = Some decoded"
    and "Bounds decoded = Rect 0 0 width height"
  shows "labelImage lb h img =
           addLabel lb h img
             (fst (placementPoint width height)) (snd (placementPoint width height))
             ''This is watermark''"
  using assms
  by (simp add: labelImage_def placementPoint_def Rect_def Let_def watermark_def)

theorem placement_policy_witness:
  "lookup [smallImage] 0 = Some smallImage \<and> Bounds smallImage = Rect 0 0 10 10 \<and>
   labelImage demoLib [smallImage] 0 = addLabel demoLib [smallImage] 0 0 0 ''This is watermark'' \<and>
   lookup [largeImage] 0 = Some largeImage \<and> Bounds largeImage = Rect 0 0 800 600 \<and>
   labelImage demoLib [largeImage] 0 = addLabel demoLib [largeImage] 0 20 20 ''This is watermark''"
proof -
  have a: "lookup [smallImage] 0 = Some smallImage" "Bounds smallImage = Rect 0 0 10 10"
    by (simp_all add: lookup_def smallImage_def)
  have b: "lookup [largeImage] 0 = Some largeImage" "Bounds largeImage = Rect 0 0 800 600"
    by (simp_all add: lookup_def largeImage_def)
  from placement_policy [OF a, of demoLib]
  have 1: "labelImage demoLib [smallImage] 0 =
      addLabel demoLib [smallImage] 0 0 0 ''This is watermark''"
    by (simp add: placementPoint_def)
  from placement_policy [OF b, of demoLib]
  have 2: "labelImage demoLib [largeImage] 0 =
      addLabel demoLib [largeImage] 0 20 20 ''This is watermark''"
    by (simp add: placementPoint_def)
  from a b 1 2 show ?thesis by blast
qed

subsection \<open>Drawing, and the claim about addLabel\<close>

text \<open>Through a mask byte \<open>0xff\<close> the opaque red source replaces the destination;
  through \<open>0x00\<close> the destination stays.\<close>

lemma widen_ff: "widen 0xff = 0xffff"
  by (simp add: widen_def)

lemma red_RGBA: "RGBA_RGBA red = Color 0xffff 0 0 0xffff"
  by (simp add: RGBA_RGBA_def red_def widen_def)

lemma blendByte_full: "blendByte d 0xffff 0xffff 0xffff = 0xff"
  by (simp add: blendByte_def m16_def)

lemma blendByte_none: "blendByte d 0 0xffff 0xffff = 0"
  by (simp add: blendByte_def m16_def)

lemma blendOver_opaque: "blendOver d (RGBA_RGBA red) 0xff = red"
  unfolding blendOver_def red_RGBA
  by (simp add: widen_ff blendByte_full blendByte_none red_def)

lemma blendOver_zero: "blendOver d src 0 = d"
  by (simp add: blendOver_def)

text \<open>A point is in an intersection when it is in both rectangles, also when the
  intersection is empty and the library answers the zero rectangle.\<close>

lemma In_Intersect: "In p (Intersect r s) \<longleftrightarrow> In p r \<and> In p s"
  by (auto simp: In_def Intersect_def Empty_def Rect_def Let_def)

lemma DrawMask_rect: "rgbaRect (DrawMask dst dr src msk maskp) = rgbaRect dst"
  by (simp add: DrawMask_def)

lemma DrawMask_pix:
  "Pix (DrawMask dst dr (RGBA_RGBA red) msk maskp) p =
     (if In p (rgbaRect dst) \<and> In p dr \<and> msk (addP maskp (subP p (rMin dr)))
      then red else Pix dst p)"
  by (simp add: DrawMask_def In_Intersect maskAlpha_def blendOver_opaque blendOver_zero)

text \<open>Drawing a string keeps the rectangle of the buffer and turns the covered points
  inside it red, and no other point.\<close>

lemma DrawString_rect: "rgbaRect (DrawString f src dot cs dst) = rgbaRect dst"
  by (induction cs arbitrary: dot dst) (auto simp: DrawMask_rect split: option.splits)

lemma DrawString_pix:
  "In p (rgbaRect dst) \<Longrightarrow>
   Pix (DrawString f (RGBA_RGBA red) dot cs dst) p =
     (if glyphCovers f dot cs p then red else Pix dst p)"
proof (induction cs arbitrary: dot dst)
  case Nil
  then show ?case by simp
next
  case (Cons c cs)
  show ?case
  proof (cases "Glyph f dot c")
    case None
    with Cons show ?thesis by simp
  next
    case (Some g)
    obtain dr maskp advance where g: "g = (dr, maskp, advance)" by (cases g)
    from Cons.prems have "In p (rgbaRect (DrawMask dst dr (RGBA_RGBA red) (Mask f) maskp))"
      by (simp add: DrawMask_rect)
    from Cons.IH [OF this] Some g Cons.prems show ?thesis
      by (simp add: DrawMask_pix)
  qed
qed

lemma DrawString_outside:
  "\<not> In p (rgbaRect dst) \<Longrightarrow> Pix (DrawString f src dot cs dst) p = Pix dst p"
proof (induction cs arbitrary: dot dst)
  case Nil
  then show ?case by simp
next
  case (Cons c cs)
  show ?case
  proof (cases "Glyph f dot c")
    case None
    with Cons show ?thesis by simp
  next
    case (Some g)
    obtain dr maskp advance where g: "g = (dr, maskp, advance)" by (cases g)
    from Cons.prems have "\<not> In p (rgbaRect (DrawMask dst dr src (Mask f) maskp))"
      by (simp add: DrawMask_rect)
    from Cons.IH [OF this] Some g Cons.prems show ?thesis
      by (simp add: DrawMask_def In_Intersect)
  qed
qed

lemma Draw_rect: "rgbaRect (Draw dst r src sp) = rgbaRect dst"
  by (simp add: Draw_def)

text \<open>The copy that addLabel makes, for bounds that start at the origin.\<close>

lemma Draw_copy:
  assumes "rMin b = (0, 0)" and "Bounds src = b"
  shows "Pix (Draw (blankRGBA b) b src (0, 0)) p =
           (if In p b then rgbaModel (At src p) else RGBA 0 0 0 0)"
proof -
  have "Add b (subP (rMin b) (0, 0)) = b"
    using assms by (simp add: Add_def subP_def addP_def)
  then have "In p (clipSrc b b b (0, 0)) \<longleftrightarrow> In p b"
    by (simp add: clipSrc_def In_Intersect)
  moreover have "addP (0, 0) (subP p (rMin b)) = p"
    using assms by (simp add: addP_def subP_def)
  ultimately show ?thesis
    using assms by (simp add: Draw_def blankRGBA_def)
qed

text \<open>What addLabel returns, with the store operations carried out.\<close>

lemma addLabel_result:
  assumes "lookup h img = Some src"
    and "NewRGBA (makeBytes lb) (Bounds src) = Some blank"
  shows "addLabel lb h img x y label =
           Some (h @ [RGBAObject
                   (DrawString (Face7x13 (mask7x13 lb) (ranges7x13 lb)) (RGBA_RGBA red)
                      (toInt26_6 (x * 64), toInt26_6 (y * 64)) (runes lb label)
                      (Draw (blankRGBA (Bounds src)) (Bounds src) src (0, 0)))],
                 length h)"
proof -
  from assms(2) have "blank = blankRGBA (Bounds src)"
    by (simp add: NewRGBA_def Let_def split: if_splits)
  with assms show ?thesis by (simp add: addLabel_def Let_def blankRGBA_def)
qed

lemma lookup_snoc: "lookup (h @ [obj]) (length h) = Some obj"
  by (simp add: lookup_def)

lemma lookup_snoc_old: "lookup h r = Some obj \<Longrightarrow> lookup (h @ [new]) r = Some obj"
  by (auto simp: lookup_def nth_append split: if_splits)

text \<open>Converting an 8-bit colour is exact: an image that is already 8-bit RGBA is copied
  unchanged.\<close>

lemma rgbaModel_RGBA: "rgbaModel (RGBA_RGBA c) = c"
proof -
  have "ucast (drop_bit 8 (widen v)) = v" for v :: "8 word"
    unfolding widen_def
    by (rule bit_word_eqI) (auto simp: bit_simps dest: bit_imp_le_length)
  then show ?thesis by (cases c) (simp add: rgbaModel_def RGBA_RGBA_def)
qed

lemma watermark_runes:
  "runes demoLib ''This is watermark'' =
     [84, 104, 105, 115, 32, 105, 115, 32, 119, 97, 116, 101, 114, 109, 97, 114, 107]"
  by (simp add: demoLib_def)

lemma round20: "roundPixel (toInt26_6 1280) = 20"
  by (simp add: roundPixel_def toInt26_6_def)

text \<open>Every glyph of a string lies in the rows between ascent and descent around the dot.\<close>

lemma glyphCovers_rows:
  "glyphCovers f dot cs p \<Longrightarrow>
     roundPixel (snd dot) - Ascent f \<le> snd p \<and> snd p < roundPixel (snd dot) + Descent f"
proof (induction cs arbitrary: dot)
  case Nil
  then show ?case by simp
next
  case (Cons c cs)
  show ?case
  proof (cases "Glyph f dot c")
    case None
    with Cons show ?thesis by simp
  next
    case (Some g)
    obtain dr maskp advance where g: "g = (dr, maskp, advance)" by (cases g)
    from Some g have dr: "snd (rMin dr) = roundPixel (snd dot) - Ascent f"
      "snd (rMax dr) = roundPixel (snd dot) + Descent f"
      by (auto simp: Glyph_def Let_def split: option.splits)
    from Cons.prems Some g
    consider "In p dr" | "glyphCovers f (fst dot + advance, snd dot) cs p" by auto
    then show ?thesis
    proof cases
      case 1
      with dr show ?thesis by (simp add: In_def)
    next
      case 2
      from Cons.IH [OF 2] show ?thesis by simp
    qed
  qed
qed

lemma glyphCovers_first:
  assumes "Glyph f dot c = Some (dr, maskp, advance)"
    and "In p dr" and "Mask f (addP maskp (subP p (rMin dr)))"
  shows "glyphCovers f dot (c # cs) p"
  using assms by simp

lemma Glyph_T:
  "Glyph (Face7x13 (mask7x13 demoLib) (ranges7x13 demoLib))
     (toInt26_6 (20 * 64), toInt26_6 (20 * 64)) 84 =
   Some (Rect 20 9 26 22, (0, 676), toInt26_6 (7 * 64))"
  by (simp add: Glyph_def Face7x13_def demoLib_def round20 Rect_def Let_def)

lemma addLabel_pixels:
  assumes "lookup h img = Some src"
    and "NewRGBA (makeBytes lb) (Bounds src) = Some blank"
  shows "\<exists>buf.
           addLabel lb h img x y label = Some (h @ [RGBAObject buf], length h) \<and>
           rgbaRect buf = Bounds src \<and>
           (\<forall>p. In p (Bounds src) \<longrightarrow>
              Pix buf p =
                (if glyphCovers (Face7x13 (mask7x13 lb) (ranges7x13 lb))
                      (toInt26_6 (x * 64), toInt26_6 (y * 64)) (runes lb label) p
                 then red
                 else Pix (Draw (blankRGBA (Bounds src)) (Bounds src) src (0, 0)) p))"
proof -
  let ?copy = "Draw (blankRGBA (Bounds src)) (Bounds src) src (0, 0)"
  let ?f = "Face7x13 (mask7x13 lb) (ranges7x13 lb)"
  let ?dot = "(toInt26_6 (x * 64), toInt26_6 (y * 64))"
  let ?buf = "DrawString ?f (RGBA_RGBA red) ?dot (runes lb label) ?copy"
  have r: "rgbaRect ?copy = Bounds src" by (simp add: Draw_rect blankRGBA_def)
  have 1: "addLabel lb h img x y label = Some (h @ [RGBAObject ?buf], length h)"
    using assms by (rule addLabel_result)
  have 2: "rgbaRect ?buf = Bounds src" by (simp add: DrawString_rect r)
  have 3: "\<forall>p. In p (Bounds src) \<longrightarrow>
              Pix ?buf p = (if glyphCovers ?f ?dot (runes lb label) p then red else Pix ?copy p)"
  proof (intro allI impI)
    fix p
    assume "In p (Bounds src)"
    then have "In p (rgbaRect ?copy)" by (simp add: r)
    then show "Pix ?buf p = (if glyphCovers ?f ?dot (runes lb label) p then red else Pix ?copy p)"
      by (rule DrawString_pix)
  qed
  from 1 2 3 show ?thesis by blast
qed

lemma pixelOf_snoc:
  "pixelOf (Some (h @ [obj], length h)) p = Some (At obj p)"
  by (simp add: pixelOf_def lookup_snoc)

text \<open>The example images that \<open>image.NewRGBA\<close> accepts.\<close>

lemma large_fits:
  "NewRGBA (makeBytes demoLib) (Bounds largeImage) = Some (blankRGBA (Rect 0 0 800 600))"
  by (simp add: NewRGBA_def mul3NonNeg_def Dx_def Dy_def wrap64_def largeImage_def Rect_def
      demoLib_def Let_def)

lemma deep_fits:
  "NewRGBA (makeBytes demoLib) (Bounds deepImage) = Some (blankRGBA (Rect 0 0 1 1))"
  by (simp add: NewRGBA_def mul3NonNeg_def Dx_def Dy_def wrap64_def deepImage_def Rect_def
      demoLib_def Let_def)

lemma offset_fits:
  "NewRGBA (makeBytes demoLib) (Bounds offsetImage) = Some (blankRGBA (Rect 1 1 2 2))"
  by (simp add: NewRGBA_def mul3NonNeg_def Dx_def Dy_def wrap64_def offsetImage_def Rect_def
      demoLib_def Let_def)

text \<open>
  Where \<open>image.NewRGBA\<close> does not return, addLabel does not: on bounds with a negative
  width, and on the bounds of an \<open>image.Uniform\<close>, which reach 10^9 in each direction,
  whatever the run time would grant.
\<close>

lemma addLabel_no_buffer:
  assumes "lookup h img = Some src"
    and "NewRGBA (makeBytes lb) (Bounds src) = None"
  shows "addLabel lb h img x y label = None"
  using assms by (simp add: addLabel_def)

lemma NewRGBA_reversed: "NewRGBA granted (Bounds reversedImage) = None"
  by (simp add: NewRGBA_def mul3NonNeg_def Dx_def Dy_def wrap64_def reversedImage_def Rect_def
      Let_def)

lemma NewRGBA_uniform: "NewRGBA granted (Bounds uniformImage) = None"
  by (simp add: NewRGBA_def mul3NonNeg_def Dx_def Dy_def wrap64_def uniformImage_def Rect_def
      Let_def)

lemma addLabel_uniform:
  "addLabel lb [uniformImage] 0 x y label = None \<and> addLabel lb [reversedImage] 0 x y label = None"
  using addLabel_no_buffer [of "[uniformImage]" 0 uniformImage lb x y label]
    addLabel_no_buffer [of "[reversedImage]" 0 reversedImage lb x y label]
  by (simp add: lookup_def NewRGBA_uniform NewRGBA_reversed)

lemma watermark_not_at_origin:
  "\<not> glyphCovers (Face7x13 (mask7x13 demoLib) (ranges7x13 demoLib))
       (toInt26_6 (20 * 64), toInt26_6 (20 * 64)) (runes demoLib ''This is watermark'') (0, 0)"
proof
  assume "glyphCovers (Face7x13 (mask7x13 demoLib) (ranges7x13 demoLib))
       (toInt26_6 (20 * 64), toInt26_6 (20 * 64)) (runes demoLib ''This is watermark'') (0, 0)"
  from glyphCovers_rows [OF this] show False
    by (simp add: round20 Face7x13_def)
qed

lemma watermark_at_20_20:
  "glyphCovers (Face7x13 (mask7x13 demoLib) (ranges7x13 demoLib))
       (toInt26_6 (20 * 64), toInt26_6 (20 * 64)) (runes demoLib ''This is watermark'') (20, 20)"
  unfolding watermark_runes
  by (rule glyphCovers_first [OF Glyph_T]) (simp_all add: In_def Rect_def Face7x13_def demoLib_def)

text \<open>
  Claim C6, as amended. The claim is about the images for which \<open>image.NewRGBA\<close>
  returns a buffer: their bounds have no negative width or height, and the four bytes
  for each point fit in an \<open>int\<close> and are granted by the run time. For such an image
  addLabel allocates a new \<open>*image.RGBA\<close>: the reference it returns was not in the
  store, and every object that was, the input image among them, is unchanged. The new
  image has the bounds of the input. Its points under a glyph of the label are
  \<open>(255, 0, 0, 255)\<close>. When the bounds of the input start at the origin, every other
  point holds the colour of the input at that point converted to \<open>color.RGBA\<close>, which
  keeps the high byte of each 16-bit channel.
\<close>

theorem addLabel_frame:
  assumes "lookup h img = Some src"
    and "NewRGBA (makeBytes lb) (Bounds src) = Some blank"
  shows "\<exists>h' buf.
           addLabel lb h img x y label = Some (h', length h) \<and>
           lookup h (length h) = None \<and>
           length h' = Suc (length h) \<and>
           take (length h) h' = h \<and>
           lookup h' img = Some src \<and>
           lookup h' (length h) = Some (RGBAObject buf) \<and>
           rgbaRect buf = Bounds src \<and>
           (\<forall>p. In p (Bounds src) \<and>
                glyphCovers (Face7x13 (mask7x13 lb) (ranges7x13 lb))
                  (toInt26_6 (x * 64), toInt26_6 (y * 64)) (runes lb label) p \<longrightarrow>
                Pix buf p = RGBA 255 0 0 255) \<and>
           (rMin (Bounds src) = (0, 0) \<longrightarrow>
              (\<forall>p. In p (Bounds src) \<and>
                   \<not> glyphCovers (Face7x13 (mask7x13 lb) (ranges7x13 lb))
                       (toInt26_6 (x * 64), toInt26_6 (y * 64)) (runes lb label) p \<longrightarrow>
                   Pix buf p = rgbaModel (At src p)))"
proof -
  let ?f = "Face7x13 (mask7x13 lb) (ranges7x13 lb)"
  let ?dot = "(toInt26_6 (x * 64), toInt26_6 (y * 64))"
  from addLabel_pixels [OF assms, where x = x and y = y and label = label] obtain buf where
    1: "addLabel lb h img x y label = Some (h @ [RGBAObject buf], length h)"
    and 7: "rgbaRect buf = Bounds src"
    and pix: "\<And>p. In p (Bounds src) \<Longrightarrow>
              Pix buf p = (if glyphCovers ?f ?dot (runes lb label) p then red
                           else Pix (Draw (blankRGBA (Bounds src)) (Bounds src) src (0, 0)) p)"
    by blast
  have 2: "lookup h (length h) = None" by (simp add: lookup_def)
  have 3: "length (h @ [RGBAObject buf]) = Suc (length h)" by simp
  have 4: "take (length h) (h @ [RGBAObject buf]) = h" by simp
  have 5: "lookup (h @ [RGBAObject buf]) img = Some src"
    using assms(1) by (rule lookup_snoc_old)
  have 6: "lookup (h @ [RGBAObject buf]) (length h) = Some (RGBAObject buf)"
    by (rule lookup_snoc)
  have 8: "\<forall>p. In p (Bounds src) \<and> glyphCovers ?f ?dot (runes lb label) p \<longrightarrow>
             Pix buf p = RGBA 255 0 0 255"
    using pix by (simp add: red_def)
  have 9: "rMin (Bounds src) = (0, 0) \<longrightarrow>
             (\<forall>p. In p (Bounds src) \<and> \<not> glyphCovers ?f ?dot (runes lb label) p \<longrightarrow>
                  Pix buf p = rgbaModel (At src p))"
  proof (intro impI allI)
    fix p
    assume o: "rMin (Bounds src) = (0, 0)"
      and "In p (Bounds src) \<and> \<not> glyphCovers ?f ?dot (runes lb label) p"
    then have p: "In p (Bounds src)" and n: "\<not> glyphCovers ?f ?dot (runes lb label) p"
      by simp_all
    from pix [OF p] n Draw_copy [OF o refl, of p] p
    show "Pix buf p = rgbaModel (At src p)" by simp
  qed
  from 1 2 3 4 5 6 7 8 9 show ?thesis by blast
qed

theorem addLabel_frame_witness:
  "lookup [largeImage] 0 = Some largeImage \<and>
   NewRGBA (makeBytes demoLib) (Bounds largeImage) = Some (blankRGBA (Rect 0 0 800 600)) \<and>
   rMin (Bounds largeImage) = (0, 0) \<and>
   In (20, 20) (Bounds largeImage) \<and>
   glyphCovers (Face7x13 (mask7x13 demoLib) (ranges7x13 demoLib))
       (toInt26_6 (20 * 64), toInt26_6 (20 * 64)) (runes demoLib ''This is watermark'') (20, 20) \<and>
   In (0, 0) (Bounds largeImage) \<and>
   \<not> glyphCovers (Face7x13 (mask7x13 demoLib) (ranges7x13 demoLib))
       (toInt26_6 (20 * 64), toInt26_6 (20 * 64)) (runes demoLib ''This is watermark'') (0, 0) \<and>
   pixelOf (addLabel demoLib [largeImage] 0 20 20 ''This is watermark'') (20, 20) =
     Some (RGBA_RGBA (RGBA 255 0 0 255)) \<and>
   pixelOf (addLabel demoLib [largeImage] 0 20 20 ''This is watermark'') (0, 0) =
     Some (RGBA_RGBA (rgbaModel white))"
proof -
  have l: "lookup [largeImage] 0 = Some largeImage" by (simp add: lookup_def)
  have o: "rMin (Bounds largeImage) = (0, 0)" by (simp add: largeImage_def Rect_def)
  have i: "In (20, 20) (Bounds largeImage)" "In (0, 0) (Bounds largeImage)"
    by (simp_all add: largeImage_def Rect_def In_def)
  have a: "At largeImage (0, 0) = white" by (simp add: largeImage_def)
  from addLabel_frame [OF l large_fits, where x = 20 and y = 20
      and label = "''This is watermark''"] o obtain h' buf where
    r: "addLabel demoLib [largeImage] 0 20 20 ''This is watermark'' = Some (h', length [largeImage])"
    and lk: "lookup h' (length [largeImage]) = Some (RGBAObject buf)"
    and b: "rgbaRect buf = Bounds largeImage"
    and c: "\<forall>p. In p (Bounds largeImage) \<and>
                glyphCovers (Face7x13 (mask7x13 demoLib) (ranges7x13 demoLib))
                  (toInt26_6 (20 * 64), toInt26_6 (20 * 64))
                  (runes demoLib ''This is watermark'') p \<longrightarrow>
                Pix buf p = RGBA 255 0 0 255"
    and u: "\<forall>p. In p (Bounds largeImage) \<and>
                \<not> glyphCovers (Face7x13 (mask7x13 demoLib) (ranges7x13 demoLib))
                  (toInt26_6 (20 * 64), toInt26_6 (20 * 64))
                  (runes demoLib ''This is watermark'') p \<longrightarrow>
                Pix buf p = rgbaModel (At largeImage p)"
    by blast
  from c i(1) watermark_at_20_20 have 1: "Pix buf (20, 20) = RGBA 255 0 0 255" by blast
  from u i(2) watermark_not_at_origin a have 2: "Pix buf (0, 0) = rgbaModel white" by force
  from r lk b i 1
  have 3: "pixelOf (addLabel demoLib [largeImage] 0 20 20 ''This is watermark'') (20, 20) =
     Some (RGBA_RGBA (RGBA 255 0 0 255))"
    by (simp add: pixelOf_def)
  from r lk b i 2
  have 4: "pixelOf (addLabel demoLib [largeImage] 0 20 20 ''This is watermark'') (0, 0) =
     Some (RGBA_RGBA (rgbaModel white))"
    by (simp add: pixelOf_def)
  from l large_fits o i watermark_at_20_20 watermark_not_at_origin 3 4 show ?thesis by blast
qed

text \<open>
  The claim as stated, with "equals the corresponding input pixel", fails on an image
  with 16 bits per channel (a Gray16 or RGBA64 image from a 16-bit png): the grey
  \<open>0x1234\<close> comes out as \<open>0x1212\<close> at a point that no glyph covers.
\<close>

theorem addLabel_copy_counterexample:
  "At deepImage (0, 0) = Color 0x1234 0x1234 0x1234 0xffff \<and>
   \<not> glyphCovers (Face7x13 (mask7x13 demoLib) (ranges7x13 demoLib))
       (toInt26_6 (20 * 64), toInt26_6 (20 * 64)) (runes demoLib ''This is watermark'') (0, 0) \<and>
   pixelOf (addLabel demoLib [deepImage] 0 20 20 ''This is watermark'') (0, 0) =
     Some (Color 0x1212 0x1212 0x1212 0xffff) \<and>
   pixelOf (addLabel demoLib [deepImage] 0 20 20 ''This is watermark'') (0, 0) \<noteq>
     Some (At deepImage (0, 0))"
proof -
  have l: "lookup [deepImage] 0 = Some deepImage" by (simp add: lookup_def)
  have o: "rMin (Bounds deepImage) = (0, 0)" by (simp add: deepImage_def Rect_def)
  have i: "In (0, 0) (Bounds deepImage)" by (simp add: deepImage_def Rect_def In_def)
  have a: "At deepImage (0, 0) = Color 0x1234 0x1234 0x1234 0xffff"
    by (simp add: deepImage_def grey16_def)
  from addLabel_pixels [OF l deep_fits, where x = 20 and y = 20
      and label = "''This is watermark''"] obtain buf where
    r: "addLabel demoLib [deepImage] 0 20 20 ''This is watermark'' =
          Some ([deepImage] @ [RGBAObject buf], length [deepImage])"
    and b: "rgbaRect buf = Bounds deepImage"
    and pix: "\<And>p. In p (Bounds deepImage) \<Longrightarrow>
              Pix buf p = (if glyphCovers (Face7x13 (mask7x13 demoLib) (ranges7x13 demoLib))
                      (toInt26_6 (20 * 64), toInt26_6 (20 * 64))
                      (runes demoLib ''This is watermark'') p
                 then red
                 else Pix (Draw (blankRGBA (Bounds deepImage)) (Bounds deepImage) deepImage (0, 0)) p)"
    by blast
  from pix [OF i] watermark_not_at_origin Draw_copy [OF o refl, of "(0, 0)"] i a
  have "Pix buf (0, 0) = RGBA 0x12 0x12 0x12 0xff"
    by (simp add: rgbaModel_def)
  with b i have "At (RGBAObject buf) (0, 0) = Color 0x1212 0x1212 0x1212 0xffff"
    by (simp add: RGBA_RGBA_def widen_def)
  with r have "pixelOf (addLabel demoLib [deepImage] 0 20 20 ''This is watermark'') (0, 0) =
     Some (Color 0x1212 0x1212 0x1212 0xffff)"
    by (simp only: pixelOf_snoc)
  with a watermark_not_at_origin show ?thesis by simp
qed

text \<open>
  Why the bounds must start at the origin: \<open>draw.Draw\<close> is given the source point
  \<open>image.Point{0, 0}\<close>, not \<open>img.Bounds().Min\<close>. For an image whose bounds start
  elsewhere (a sub-image, say) the copy is shifted by the minimum, and what falls outside
  the source is left at the zero colour of the new buffer. Here the image is the single
  white point \<open>(1, 1)\<close>, and the result holds transparent black there. The decoders of
  this program never return such an image.
\<close>

lemma watermark_not_at_1_1:
  "\<not> glyphCovers (Face7x13 (mask7x13 demoLib) (ranges7x13 demoLib))
       (toInt26_6 (20 * 64), toInt26_6 (20 * 64)) (runes demoLib ''This is watermark'') (1, 1)"
proof
  assume "glyphCovers (Face7x13 (mask7x13 demoLib) (ranges7x13 demoLib))
       (toInt26_6 (20 * 64), toInt26_6 (20 * 64)) (runes demoLib ''This is watermark'') (1, 1)"
  from glyphCovers_rows [OF this] show False
    by (simp add: round20 Face7x13_def)
qed

lemma addLabel_offset_bounds:
  "At offsetImage (1, 1) = Color 0xffff 0xffff 0xffff 0xffff \<and>
   pixelOf (addLabel demoLib [offsetImage] 0 20 20 ''This is watermark'') (1, 1) =
     Some (Color 0 0 0 0)"
proof -
  have l: "lookup [offsetImage] 0 = Some offsetImage" by (simp add: lookup_def)
  have b: "Bounds offsetImage = Rect 1 1 2 2" by (simp add: offsetImage_def)
  have i: "In (1, 1) (Bounds offsetImage)" by (simp add: b Rect_def In_def)
  have a: "At offsetImage (1, 1) = Color 0xffff 0xffff 0xffff 0xffff"
    by (simp add: offsetImage_def white_def)
  have c: "\<not> In (1, 1) (clipSrc (Rect 1 1 2 2) (Rect 1 1 2 2) (Rect 1 1 2 2) (0, 0))"
    by (simp add: clipSrc_def Intersect_def Add_def addP_def subP_def Empty_def Rect_def Let_def
        In_def)
  have d: "Pix (Draw (blankRGBA (Bounds offsetImage)) (Bounds offsetImage) offsetImage (0, 0)) (1, 1) =
      RGBA 0 0 0 0"
    using c by (simp add: Draw_def blankRGBA_def b)
  from addLabel_pixels [OF l offset_fits, where x = 20 and y = 20
      and label = "''This is watermark''"] obtain buf where
    r: "addLabel demoLib [offsetImage] 0 20 20 ''This is watermark'' =
          Some ([offsetImage] @ [RGBAObject buf], length [offsetImage])"
    and rb: "rgbaRect buf = Bounds offsetImage"
    and pix: "\<And>p. In p (Bounds offsetImage) \<Longrightarrow>
              Pix buf p = (if glyphCovers (Face7x13 (mask7x13 demoLib) (ranges7x13 demoLib))
                      (toInt26_6 (20 * 64), toInt26_6 (20 * 64))
                      (runes demoLib ''This is watermark'') p
                 then red
                 else Pix (Draw (blankRGBA (Bounds offsetImage)) (Bounds offsetImage) offsetImage (0, 0)) p)"
    by blast
  from pix [OF i] watermark_not_at_1_1 d have "Pix buf (1, 1) = RGBA 0 0 0 0" by simp
  with rb i have "At (RGBAObject buf) (1, 1) = Color 0 0 0 0"
    by (simp add: RGBA_RGBA_def widen_def)
  with r have "pixelOf (addLabel demoLib [offsetImage] 0 20 20 ''This is watermark'') (1, 1) =
     Some (Color 0 0 0 0)"
    by (simp only: pixelOf_snoc)
  with a show ?thesis by blast
qed

end
